theory Spec2Isabelle
  imports Main
begin

section \<open>Strings of the host language\<close>

text \<open>
  A \<^typ>\<open>string\<close> stands for a JavaScript string whose code units are below 256, one
  \<^typ>\<open>char\<close> per code unit, so that \<^const>\<open>length\<close> is the \<^verbatim>\<open>length\<close> property:
  the text of documents, requests and upstream answers. The functions of this section are
  the built-in string operations the proxy calls.
\<close>

definition is_space :: "char \<Rightarrow> bool" where
  \<comment> \<open>white space and line terminators below 256: TAB, LF, VT, FF, CR, SP, NBSP\<close>
  "is_space c = (of_char c \<in> {9::nat, 10, 11, 12, 13, 32, 160})"

definition trim :: "string \<Rightarrow> string" where
  \<comment> \<open>\<^verbatim>\<open>String.prototype.trim\<close>\<close>
  "trim s = rev (dropWhile is_space (rev (dropWhile is_space s)))"

definition startsWith :: "'a list \<Rightarrow> 'a list \<Rightarrow> bool" where
  \<comment> \<open>\<^verbatim>\<open>s.startsWith(p)\<close>\<close>
  "startsWith s p = (take (length p) s = p)"

fun str_includes :: "'a list \<Rightarrow> 'a list \<Rightarrow> bool" where
  \<comment> \<open>\<^verbatim>\<open>s.includes(p)\<close>: \<open>p\<close> occurs in \<open>s\<close> as a contiguous substring\<close>
  "str_includes [] p = (p = [])"
| "str_includes (c # cs) p = (startsWith (c # cs) p \<or> str_includes cs p)"

fun indexOf :: "'a list \<Rightarrow> 'a \<Rightarrow> nat option" where
  \<comment> \<open>\<^verbatim>\<open>s.indexOf(c)\<close> for a one-character needle; \<open>None\<close> is the result \<^verbatim>\<open>-1\<close>\<close>
  "indexOf [] c = None"
| "indexOf (x # xs) c = (if x = c then Some 0 else map_option Suc (indexOf xs c))"

definition substring_from :: "'a list \<Rightarrow> nat option \<Rightarrow> 'a list" where
  \<comment> \<open>\<^verbatim>\<open>s.substring(i)\<close>; a negative start (here only \<^verbatim>\<open>-1\<close>) counts as 0\<close>
  "substring_from s i = (case i of None \<Rightarrow> s | Some n \<Rightarrow> drop n s)"

fun split_where :: "('a \<Rightarrow> bool) \<Rightarrow> 'a list \<Rightarrow> 'a list list" where
  \<comment> \<open>the pieces between the separators, empty ones included\<close>
  "split_where sep [] = [[]]"
| "split_where sep (x # xs) =
     (case split_where sep xs of
        [] \<Rightarrow> (if sep x then [[], []] else [[x]])
      | p # ps \<Rightarrow> (if sep x then [] # p # ps else (x # p) # ps))"

definition split_on :: "'a \<Rightarrow> 'a list \<Rightarrow> 'a list list" where
  \<comment> \<open>\<^verbatim>\<open>s.split(c)\<close>\<close>
  "split_on c s = split_where (\<lambda>x. x = c) s"

definition hex_digit :: "nat \<Rightarrow> char" where
  "hex_digit n = ''0123456789ABCDEF'' ! (n mod 16)"

definition percent_byte :: "nat \<Rightarrow> string" where
  "percent_byte b = [CHR ''%'', hex_digit (b div 16), hex_digit b]"

definition uri_unreserved :: "char \<Rightarrow> bool" where
  \<comment> \<open>the characters \<^verbatim>\<open>encodeURIComponent\<close> leaves as they are\<close>
  "uri_unreserved c =
     (let n = (of_char c :: nat) in
      (65 \<le> n \<and> n \<le> 90) \<or> (97 \<le> n \<and> n \<le> 122) \<or> (48 \<le> n \<and> n \<le> 57)
      \<or> c \<in> set ''-_.!~*'()'')"

definition encodeURIComponent :: "string \<Rightarrow> string" where
  \<comment> \<open>every other code unit becomes the percent-escapes of its UTF-8 bytes: one byte
      below 128, two bytes from 128 to 255\<close>
  "encodeURIComponent s =
     concat (map (\<lambda>c.
       let n = (of_char c :: nat) in
       if uri_unreserved c then [c]
       else if n < 128 then percent_byte n
       else percent_byte (192 + n div 64) @ percent_byte (128 + n mod 64)) s)"

subsection \<open>URLs: strings of any code unit\<close>

text \<open>
  The text of a document and of a request is held in 8-bit characters. A URL is not: the
  decoding of a redirect link can yield any character. A URL is the list of its UTF-16
  code units, numbers from 0 to 65535; \<open>ustr\<close> takes 8-bit text to it.
\<close>

type_synonym ustring = "int list"

definition ustr :: "string \<Rightarrow> ustring" where
  "ustr s = map of_char s"

definition high_surrogate :: "int \<Rightarrow> bool" where
  "high_surrogate u = (55296 \<le> u \<and> u \<le> 56319)"

definition low_surrogate :: "int \<Rightarrow> bool" where
  "low_surrogate u = (56320 \<le> u \<and> u \<le> 57343)"

fun scalar_values :: "ustring \<Rightarrow> int list" where
  \<comment> \<open>the code points of a string; U+FFFD for a surrogate without its partner\<close>
  "scalar_values [] = []"
| "scalar_values [a] = [if high_surrogate a \<or> low_surrogate a then 65533 else a]"
| "scalar_values (a # b # rest) =
     (if high_surrogate a \<and> low_surrogate b
      then (65536 + (a - 55296) * 1024 + (b - 56320)) # scalar_values rest
      else if high_surrogate a \<or> low_surrogate a then 65533 # scalar_values (b # rest)
      else a # scalar_values (b # rest))"

definition utf8_bytes :: "int \<Rightarrow> int list" where
  \<comment> \<open>the UTF-8 bytes of a code point\<close>
  "utf8_bytes cp =
     (if cp < 128 then [cp]
      else if cp < 2048 then [192 + cp div 64, 128 + cp mod 64]
      else if cp < 65536 then [224 + cp div 4096, 128 + (cp div 64) mod 64, 128 + cp mod 64]
      else [240 + cp div 262144, 128 + (cp div 4096) mod 64, 128 + (cp div 64) mod 64,
            128 + cp mod 64])"

definition utf8_encode :: "ustring \<Rightarrow> int list" where
  "utf8_encode s = concat (map utf8_bytes (scalar_values s))"

text \<open>
  The UTF-8 decoder of the platform, which never fails: a byte that cannot begin or
  continue a character yields U+FFFD, and the byte that ended a character too early is
  read again as a first byte. The state is the number of bytes still needed, the code
  point so far, and the bounds for the next byte.
\<close>

type_synonym utf8_state = "int \<times> int \<times> int \<times> int"

definition utf8_start :: utf8_state where
  "utf8_start = (0, 0, 128, 191)"

definition lead_byte :: "int \<Rightarrow> int list \<times> utf8_state" where
  \<comment> \<open>a first byte: the code points it yields at once, and the state after it\<close>
  "lead_byte b =
     (if b \<le> 127 then ([b], utf8_start)
      else if 194 \<le> b \<and> b \<le> 223 then ([], (1, b mod 32, 128, 191))
      else if 224 \<le> b \<and> b \<le> 239 then
        ([], (2, b mod 16, if b = 224 then 160 else 128, if b = 237 then 159 else 191))
      else if 240 \<le> b \<and> b \<le> 244 then
        ([], (3, b mod 8, if b = 240 then 144 else 128, if b = 244 then 143 else 191))
      else ([65533], utf8_start))"

fun utf8_decode :: "utf8_state \<Rightarrow> int list \<Rightarrow> int list" where
  "utf8_decode (needed, cp, lower, upper) [] = (if needed = 0 then [] else [65533])"
| "utf8_decode (needed, cp, lower, upper) (b # bs) =
     (if needed = 0 then fst (lead_byte b) @ utf8_decode (snd (lead_byte b)) bs
      else if lower \<le> b \<and> b \<le> upper then
        (if needed = 1 then (cp * 64 + b mod 64) # utf8_decode utf8_start bs
         else utf8_decode (needed - 1, cp * 64 + b mod 64, 128, 191) bs)
      else 65533 # fst (lead_byte b) @ utf8_decode (snd (lead_byte b)) bs)"

definition code_units :: "int \<Rightarrow> ustring" where
  \<comment> \<open>the UTF-16 code units of a code point\<close>
  "code_units cp =
     (if cp < 65536 then [cp]
      else [55296 + (cp - 65536) div 1024, 56320 + (cp - 65536) mod 1024])"

definition utf8_decode_string :: "int list \<Rightarrow> ustring" where
  "utf8_decode_string bytes = concat (map code_units (utf8_decode utf8_start bytes))"

subsection \<open>Query strings\<close>

text \<open>
  \<^verbatim>\<open>new URLSearchParams(s).get(name)\<close>: a leading \<^verbatim>\<open>?\<close> is dropped and the rest taken as
  its UTF-8 bytes; these are split at \<^verbatim>\<open>&\<close>, each non-empty piece at its first \<^verbatim>\<open>=\<close>;
  in names and values \<^verbatim>\<open>+\<close> becomes a space and \<^verbatim>\<open>%XX\<close> the byte \<^verbatim>\<open>XX\<close>, and the bytes
  that result are decoded as UTF-8.
\<close>

definition hex_value :: "int \<Rightarrow> int option" where
  \<comment> \<open>the value of a byte that is an ASCII hexadecimal digit\<close>
  "hex_value n =
     (if 48 \<le> n \<and> n \<le> 57 then Some (n - 48)
      else if 65 \<le> n \<and> n \<le> 70 then Some (n - 55)
      else if 97 \<le> n \<and> n \<le> 102 then Some (n - 87)
      else None)"

fun percent_decode :: "int list \<Rightarrow> int list" where
  "percent_decode (c # h # l # rest) =
     (if c = of_char (CHR ''%'') then
        (case (hex_value h, hex_value l) of
           (Some a, Some b) \<Rightarrow> (16 * a + b) # percent_decode rest
         | _ \<Rightarrow> c # percent_decode (h # l # rest))
      else c # percent_decode (h # l # rest))"
| "percent_decode cs = cs"

definition form_decode :: "int list \<Rightarrow> ustring" where
  "form_decode bytes =
     utf8_decode_string (percent_decode
       (map (\<lambda>b. if b = of_char (CHR ''+'') then of_char (CHR '' '') else b) bytes))"

definition parse_pair :: "int list \<Rightarrow> ustring \<times> ustring" where
  "parse_pair p =
     (case indexOf p (of_char (CHR ''='')) of
        None \<Rightarrow> (form_decode p, [])
      | Some i \<Rightarrow> (form_decode (take i p), form_decode (drop (Suc i) p)))"

definition URLSearchParams :: "ustring \<Rightarrow> (ustring \<times> ustring) list" where
  "URLSearchParams s =
     map parse_pair (filter (\<lambda>p. p \<noteq> [])
       (split_on (of_char (CHR ''&''))
          (utf8_encode (if startsWith s (ustr ''?'') then drop 1 s else s))))"

definition searchParams_get :: "(ustring \<times> ustring) list \<Rightarrow> ustring \<Rightarrow> ustring option" where
  \<comment> \<open>the value of the first pair with that name; \<open>None\<close> is \<^verbatim>\<open>null\<close>\<close>
  "searchParams_get ps name = map_of ps name"

subsection \<open>Unwrapping a redirect link\<close>

text \<open>
  \<^verbatim>\<open>
  if (url && url.startsWith('/url?q=')) {
    const urlParams = new URLSearchParams(url.substring(url.indexOf('?')));
    url = urlParams.get('q') || url;
  }
  \<close>
\<close>

definition unwrap_url :: "ustring \<Rightarrow> ustring" where
  "unwrap_url url =
     (if url \<noteq> [] \<and> startsWith url (ustr ''/url?q='') then
        (case searchParams_get
                (URLSearchParams (substring_from url (indexOf url (of_char (CHR ''?'')))))
                (ustr ''q'') of
           None \<Rightarrow> url
         | Some v \<Rightarrow> if v = [] then url else v)
      else url)"

section \<open>The document tree and its queries\<close>

text \<open>
  The markup parser of the DOM library (\<^verbatim>\<open>cheerio.load\<close>) is not part of the repository:
  the functions below take the parsed tree. An element has a tag name, its attributes
  and its children. A located node is a node with its ancestors, nearest first, which is
  what \<^verbatim>\<open>closest\<close> and the selectors with combinators walk.
\<close>

datatype node =
  Element string "(string \<times> string) list" "node list"
| Text string
| Comment string

type_synonym located = "node list \<times> node"

fun textContent :: "node \<Rightarrow> string" where
  \<comment> \<open>\<^verbatim>\<open>.text()\<close> of one node: the text nodes below it, comments left out\<close>
  "textContent (Element t attrs cs) = concat (map textContent cs)"
| "textContent (Text s) = s"
| "textContent (Comment s) = []"

fun getText :: "node \<Rightarrow> string" where
  \<comment> \<open>the text \<^verbatim>\<open>:contains\<close> searches: as above, with a line feed for every \<^verbatim>\<open>br\<close>\<close>
  "getText (Element t attrs cs) =
     (if t = ''br'' then [char_of (10::nat)] else concat (map getText cs))"
| "getText (Text s) = s"
| "getText (Comment s) = []"

fun attr :: "node \<Rightarrow> string \<Rightarrow> string option" where
  "attr (Element t attrs cs) k = map_of attrs k"
| "attr _ k = None"

fun is_tag :: "string \<Rightarrow> node \<Rightarrow> bool" where
  "is_tag name (Element t attrs cs) = (t = name)"
| "is_tag name _ = False"

definition has_attr :: "string \<Rightarrow> node \<Rightarrow> bool" where
  \<comment> \<open>\<^verbatim>\<open>[k]\<close>\<close>
  "has_attr k n = (attr n k \<noteq> None)"

definition attr_is :: "string \<Rightarrow> string \<Rightarrow> node \<Rightarrow> bool" where
  \<comment> \<open>\<^verbatim>\<open>[k="v"]\<close>\<close>
  "attr_is k v n = (attr n k = Some v)"

definition attr_includes :: "string \<Rightarrow> string \<Rightarrow> node \<Rightarrow> bool" where
  \<comment> \<open>\<^verbatim>\<open>[k*="v"]\<close>\<close>
  "attr_includes k v n = (case attr n k of None \<Rightarrow> False | Some w \<Rightarrow> str_includes w v)"

definition has_class :: "string \<Rightarrow> node \<Rightarrow> bool" where
  \<comment> \<open>\<^verbatim>\<open>.c\<close>: \<open>c\<close> is one of the space-separated words of the class attribute\<close>
  "has_class c n =
     (case attr n ''class'' of None \<Rightarrow> False | Some w \<Rightarrow> c \<in> set (split_where is_space w))"

definition contains_text :: "string \<Rightarrow> node \<Rightarrow> bool" where
  \<comment> \<open>\<^verbatim>\<open>:contains("t")\<close>\<close>
  "contains_text t n = str_includes (getText n) t"

fun descendants :: "node list \<Rightarrow> node \<Rightarrow> located list" where
  \<comment> \<open>the nodes strictly below a node, in document order\<close>
  "descendants ancs (Element t attrs cs) =
     concat (map (\<lambda>c. (Element t attrs cs # ancs, c) # descendants (Element t attrs cs # ancs) c) cs)"
| "descendants ancs _ = []"

definition find_in :: "located \<Rightarrow> (located \<Rightarrow> bool) \<Rightarrow> located list" where
  \<comment> \<open>\<^verbatim>\<open>$(el).find(selector)\<close>: the elements below \<open>el\<close> that match, in document order\<close>
  "find_in b sel = filter sel (descendants (fst b) (snd b))"

definition select_root :: "node list \<Rightarrow> (located \<Rightarrow> bool) \<Rightarrow> located list" where
  \<comment> \<open>\<^verbatim>\<open>$(selector)\<close>: the elements of the whole document that match, in document order\<close>
  "select_root doc sel = filter sel (concat (map (\<lambda>n. ([], n) # descendants [] n) doc))"

definition closest :: "located \<Rightarrow> (node \<Rightarrow> bool) \<Rightarrow> node option" where
  \<comment> \<open>\<^verbatim>\<open>$(el).closest(selector)\<close>: the element itself or its nearest ancestor that matches\<close>
  "closest b sel = List.find sel (snd b # fst b)"

definition first_text :: "located list \<Rightarrow> string" where
  \<comment> \<open>\<^verbatim>\<open>.first().text()\<close>: the empty string for an empty selection\<close>
  "first_text sel = (case sel of [] \<Rightarrow> [] | x # _ \<Rightarrow> textContent (snd x))"

definition child_of :: "(node \<Rightarrow> bool) \<Rightarrow> located \<Rightarrow> bool" where
  \<comment> \<open>\<^verbatim>\<open>P > ...\<close> inside \<^verbatim>\<open>$(ctx).find\<close>: the parent matches \<open>P\<close>; the parent can be the
      context element itself\<close>
  "child_of P x = (case fst x of [] \<Rightarrow> False | p # ps \<Rightarrow> P p)"

subsection \<open>Inline styles\<close>

text \<open>
  \<^verbatim>\<open>$(el).css(prop)\<close> reads the \<^verbatim>\<open>style\<close> attribute: the declarations are the pieces
  between semicolons; a piece with a colon after its first character and before its last
  sets a property, any other piece is appended to the value of the property before it.
\<close>

definition trimEnd :: "string \<Rightarrow> string" where
  "trimEnd s = rev (dropWhile is_space (rev s))"

definition css_append ::
  "string option \<times> (string \<rightharpoonup> string) \<Rightarrow> string \<Rightarrow> string option \<times> (string \<rightharpoonup> string)" where
  "css_append st str =
     (case fst st of
        None \<Rightarrow> st
      | Some key \<Rightarrow>
          if trimEnd str = [] then st
          else (Some key,
                (snd st)(key \<mapsto> (case snd st key of None \<Rightarrow> [] | Some v \<Rightarrow> v)
                                   @ CHR '';'' # trimEnd str)))"

definition css_piece ::
  "string option \<times> (string \<rightharpoonup> string) \<Rightarrow> string \<Rightarrow> string option \<times> (string \<rightharpoonup> string)" where
  "css_piece st str =
     (case indexOf str (CHR '':'') of
        Some (Suc m) \<Rightarrow>
          if Suc m = length str - 1 then css_append st str
          else (Some (trim (take (Suc m) str)),
                (snd st)(trim (take (Suc m) str) \<mapsto> trim (drop (Suc (Suc m)) str)))
      | _ \<Rightarrow> css_append st str)"

definition parse_style :: "string option \<Rightarrow> (string \<rightharpoonup> string)" where
  "parse_style style =
     (let styles = trim (case style of None \<Rightarrow> [] | Some s \<Rightarrow> s) in
      if styles = [] then Map.empty
      else snd (foldl css_piece (None, Map.empty) (split_on (CHR '';'') styles)))"

definition css :: "located \<Rightarrow> string \<Rightarrow> string option" where
  \<comment> \<open>\<open>None\<close> is \<^verbatim>\<open>undefined\<close>\<close>
  "css b prop = parse_style (attr (snd b) ''style'') prop"

section \<open>The tree-based result parser\<close>

record result =
  title :: string
  url :: ustring
  snippet :: string
  source :: string

text \<open>
  \<^verbatim>\<open>$('div.tF2Cxc, div.kvH3mc, #search div.g')\<close>: the candidate blocks of the document.
\<close>

definition result_block :: "located \<Rightarrow> bool" where
  "result_block x =
     (is_tag ''div'' (snd x) \<and>
      (has_class ''tF2Cxc'' (snd x) \<or> has_class ''kvH3mc'' (snd x) \<or>
       (has_class ''g'' (snd x) \<and> list_ex (attr_is ''id'' ''search'') (fst x))))"

definition resultBlocks :: "node list \<Rightarrow> located list" where
  "resultBlocks doc = select_root doc result_block"

text \<open>
  The test that opens the loop body (\<^verbatim>\<open>Skip known ad / special content patterns\<close>): the
  ten conditions of the source, in its order.
\<close>

definition heading2 :: "string \<Rightarrow> located \<Rightarrow> bool" where
  \<comment> \<open>\<^verbatim>\<open>div[role="heading"][aria-level="2"]:contains("t")\<close>\<close>
  "heading2 t x =
     (is_tag ''div'' (snd x) \<and> attr_is ''role'' ''heading'' (snd x) \<and>
      attr_is ''aria-level'' ''2'' (snd x) \<and> contains_text t (snd x))"

definition ad_or_special :: "located \<Rightarrow> bool" where
  "ad_or_special resultElement =
     (closest resultElement (attr_is ''data-text-ad'' ''1'') \<noteq> None \<or>
      find_in resultElement (\<lambda>x. is_tag ''span'' (snd x) \<and>
         (contains_text ''Ad'' (snd x) \<or> contains_text ''Sponsored'' (snd x))) \<noteq> [] \<or>
      find_in resultElement (\<lambda>x. is_tag ''div'' (snd x) \<and> attr_is ''role'' ''region'' (snd x) \<and>
         attr_includes ''aria-label'' ''Ads'' (snd x)) \<noteq> [] \<or>
      find_in resultElement (\<lambda>x. is_tag ''div'' (snd x) \<and>
         attr_is ''data-nosnippet'' ''true'' (snd x)) \<noteq> [] \<or>
      find_in resultElement (\<lambda>x. is_tag ''g-accordion-expander'' (snd x)) \<noteq> [] \<or>
      find_in resultElement (heading2 ''People also ask'') \<noteq> [] \<or>
      find_in resultElement (heading2 ''Related searches'') \<noteq> [] \<or>
      find_in resultElement (heading2 ''Top stories'') \<noteq> [] \<or>
      find_in resultElement (heading2 ''Videos'') \<noteq> [] \<or>
      css resultElement ''display'' = Some ''none'')"

text \<open>The link and the title of a block; \<open>None\<close> when the block has no link at all.\<close>

definition heading3 :: "located \<Rightarrow> bool" where
  \<comment> \<open>\<^verbatim>\<open>h3, div[role="heading"][aria-level="3"]\<close>\<close>
  "heading3 x =
     (is_tag ''h3'' (snd x) \<or>
      (is_tag ''div'' (snd x) \<and> attr_is ''role'' ''heading'' (snd x) \<and>
       attr_is ''aria-level'' ''3'' (snd x)))"

definition link_selector :: "located \<Rightarrow> bool" where
  \<comment> \<open>\<^verbatim>\<open>div.yuRUbf > a[href], a[jsname="UWckNb"][href]\<close>\<close>
  "link_selector x =
     (is_tag ''a'' (snd x) \<and> has_attr ''href'' (snd x) \<and>
      (child_of (\<lambda>p. is_tag ''div'' p \<and> has_class ''yuRUbf'' p) x \<or>
       attr_is ''jsname'' ''UWckNb'' (snd x)))"

definition href :: "located \<Rightarrow> string" where
  \<comment> \<open>\<^verbatim>\<open>.attr('href')\<close> of an element selected by \<^verbatim>\<open>[href]\<close>\<close>
  "href x = (case attr (snd x) ''href'' of None \<Rightarrow> [] | Some v \<Rightarrow> v)"

definition link_and_title :: "located \<Rightarrow> (string \<times> string) option" where
  "link_and_title resultElement =
     (case find_in resultElement link_selector of
        linkElement # _ \<Rightarrow>
          Some (href linkElement, trim (first_text (find_in linkElement heading3)))
      | [] \<Rightarrow>
          (case find_in resultElement (\<lambda>x. is_tag ''a'' (snd x) \<and> has_attr ''href'' (snd x)) of
             genericLink # _ \<Rightarrow>
               Some (href genericLink,
                 (let t = trim (first_text (find_in genericLink (\<lambda>x. is_tag ''h3'' (snd x))))
                  in if t \<noteq> [] then t
                     else trim (first_text (find_in resultElement heading3))))
           | [] \<Rightarrow> None))"

text \<open>The URL validation (\<^verbatim>\<open>URL validation (critical)\<close>): true when the block is skipped.\<close>

definition url_rejected :: "ustring set \<Rightarrow> ustring \<Rightarrow> bool" where
  "url_rejected seenUrls u =
     (u = [] \<or> \<not> startsWith u (ustr ''http'') \<or>
      str_includes u (ustr ''google.com/search?'') \<or>
      str_includes u (ustr ''google.com/imgres'') \<or>
      str_includes u (ustr ''google.com/maps'') \<or>
      str_includes u (ustr ''google.com/preferences'') \<or>
      str_includes u (ustr ''accounts.google.com'') \<or>
      str_includes u (ustr ''support.google.com/websearch/answer'') \<or>
      str_includes u (ustr ''policies.google.com'') \<or>
      str_includes u (ustr ''webcache.googleusercontent.com'') \<or>
      u \<in> seenUrls)"

definition snippet_selector :: "located \<Rightarrow> bool" where
  \<comment> \<open>\<^verbatim>\<open>div.VwiC3b, div.Uroaid, div.s, div.st, div[data-sncf="1"]\<close>\<close>
  "snippet_selector x =
     (is_tag ''div'' (snd x) \<and>
      (has_class ''VwiC3b'' (snd x) \<or> has_class ''Uroaid'' (snd x) \<or> has_class ''s'' (snd x) \<or>
       has_class ''st'' (snd x) \<or> attr_is ''data-sncf'' ''1'' (snd x)))"

definition span_text :: "located \<Rightarrow> string" where
  \<comment> \<open>what one span adds to the fallback snippet\<close>
  "span_text span =
     (if closest span (\<lambda>n. is_tag ''h3'' n \<or> (is_tag ''div'' n \<and> has_class ''yuRUbf'' n) \<or>
                            (is_tag ''a'' n \<and> has_attr ''href'' n)) = None
         \<and> length (trim (textContent (snd span))) > 15
      then trim (textContent (snd span)) @ '' '' else [])"

definition extract_snippet :: "located \<Rightarrow> string" where
  "extract_snippet resultElement =
     (let s = trim (first_text (find_in resultElement snippet_selector)) in
      if s \<noteq> [] then s
      else take 350 (trim (concat (map span_text
             (find_in resultElement (\<lambda>x. is_tag ''span'' (snd x)))))))"

text \<open>
  The body of the callback of \<^verbatim>\<open>resultBlocks.each\<close>, after its first line. The state is
  the array \<^verbatim>\<open>results\<close> and the set \<^verbatim>\<open>seenUrls\<close>; every \<^verbatim>\<open>return\<close> leaves it as it is.
\<close>

type_synonym parse_state = "result list \<times> ustring set"

definition block_step :: "located \<Rightarrow> parse_state \<Rightarrow> parse_state" where
  "block_step resultElement st =
     (if ad_or_special resultElement then st
      else if length (trim (textContent (snd resultElement))) < 50 then st
      else
        (case link_and_title resultElement of
           None \<Rightarrow> st
         | Some (link, t) \<Rightarrow>
             (let u = unwrap_url (ustr link) in
              if url_rejected (snd st) u then st
              else
                (let s = extract_snippet resultElement in
                 if t \<noteq> [] \<and> u \<noteq> [] \<and> length t > 3 \<and> length s > 10
                 then (fst st @ [\<lparr>title = t, url = u, snippet = s,
                                  source = ''Bright Data SERP (Cheerio)''\<rparr>],
                       insert u (snd st))
                 else st))))"

fun each :: "('a \<Rightarrow> 's \<Rightarrow> bool \<times> 's) \<Rightarrow> 'a list \<Rightarrow> 's \<Rightarrow> 's" where
  \<comment> \<open>\<^verbatim>\<open>selection.each(callback)\<close>: the loop ends when the callback returns \<^verbatim>\<open>false\<close>\<close>
  "each f [] st = st"
| "each f (x # xs) st = (case f x st of (go_on, st') \<Rightarrow> if go_on then each f xs st' else st')"

definition block_callback :: "located \<Rightarrow> parse_state \<Rightarrow> bool \<times> parse_state" where
  \<comment> \<open>the callback: \<^verbatim>\<open>if (results.length >= 10) return false;\<close> and then the body\<close>
  "block_callback resultElement st =
     (if length (fst st) \<ge> 10 then (False, st) else (True, block_step resultElement st))"

section \<open>The process and what surrounds it\<close>

text \<open>
  What a request handler can read or change besides its arguments: the configuration
  read at start-up, the clock, the upstream service, the console and the record of the
  requests sent upstream. Of a console message the fixed label is kept.
\<close>

record config =
  apiToken :: string
  zone :: string
  apiUrl :: string

record upstream_request =
  endpoint :: string
  authorization :: string
  user_agent :: string
  req_zone :: string
  req_url :: string
  req_format :: string

record upstream_response =
  status :: nat
  statusText :: string
  response_text :: string

definition ok :: "upstream_response \<Rightarrow> bool" where
  \<comment> \<open>\<^verbatim>\<open>response.ok\<close>\<close>
  "ok r = (200 \<le> status r \<and> status r < 300)"

datatype js_error = Thrown string string

text \<open>\<open>Thrown name message\<close> is an exception object.\<close>

datatype log_line = Log string | Warn string | Error string

record world =
  BRIGHT_DATA_CONFIG :: config
  clock :: string
  upstream :: "upstream_request \<Rightarrow> js_error + upstream_response"
  console :: "log_line list"
  sent :: "upstream_request list"

definition console_write :: "log_line \<Rightarrow> world \<Rightarrow> world" where
  "console_write l w = w\<lparr>console := console w @ [l]\<rparr>"

section \<open>parseGoogleHTMLWithCheerio\<close>

definition google_search_url :: "string \<Rightarrow> ustring" where
  \<comment> \<open>\<^verbatim>\<open>`https://www.google.com/search?q=${encodeURIComponent(query)}`\<close>\<close>
  "google_search_url query = ustr (''https://www.google.com/search?q='' @ encodeURIComponent query)"

definition load_error_result :: "string \<Rightarrow> result" where
  "load_error_result query =
     \<lparr>title = ''Error parsing HTML for \"'' @ query @ ''\"'',
      url = google_search_url query,
      snippet = ''Internal proxy error: Cheerio could not load the HTML content from Bright Data.'',
      source = ''Bright Data SERP (Cheerio Load Error)''\<rparr>"

definition fallbackResult :: "string \<Rightarrow> result" where
  "fallbackResult query =
     \<lparr>title = ''No organic results found for \"'' @ query @ ''\"'',
      url = google_search_url query,
      snippet = ''Could not extract organic search results. Google's HTML structure might have changed or no relevant results were found.'',
      source = ''Bright Data SERP (Cheerio Fallback)''\<rparr>"

text \<open>
  The function takes the markup of the upstream answer, a string, and the query. Its
  first parameter is the markup parser \<^verbatim>\<open>cheerio.load\<close>, \<open>Inl\<close> when it throws.
\<close>

definition parseGoogleHTMLWithCheerio ::
  "(string \<Rightarrow> js_error + node list) \<Rightarrow> string \<Rightarrow> string \<Rightarrow> world \<Rightarrow> result list \<times> world" where
  "parseGoogleHTMLWithCheerio load html query w =
     (let w1 = console_write (Log ''PROXY_PARSE_RAW_HTML_START:'') w in
      if html = [] then
        ([], console_write (Warn ''PROXY_PARSE_WARN: HTML content is missing or not a string.'') w1)
      else
        (case load html of
           Inl e \<Rightarrow>
             ([load_error_result query],
              console_write (Error ''PROXY_PARSE_ERROR: Cheerio failed to load HTML.'') w1)
         | Inr doc \<Rightarrow>
             (let results = fst (each block_callback (resultBlocks doc) ([], {})) in
              if results = [] then
                ([fallbackResult query],
                 console_write (Log ''PROXY_PARSE_DEBUG: Fallback result being returned:'')
                   (console_write (Warn ''PROXY_PARSE_FINAL_WARN: No organic results extracted for query'') w1))
              else
                (results,
                 console_write (Log ''PROXY_PARSE_DEBUG: Successfully extracted results. Returning:'') w1))))"

section \<open>Request values\<close>

text \<open>
  What the body parser and the query-string parser hand to a handler: JSON values. A
  number is held as the text the language prints for it. \<^verbatim>\<open>String(v)\<close> and a template
  literal convert a value to a string; for an object that is the inherited
  \<^verbatim>\<open>toString\<close>, unless the object has a property of that name, which in parsed input is
  never a function: then the conversion throws.
\<close>

datatype jsval =
  JUndefined
| JNull
| JBool bool
| JNum string
| JStr string
| JArr "jsval list"
| JObj "(string \<times> jsval) list"

fun js_String :: "jsval \<Rightarrow> js_error + string"
  and js_element :: "jsval \<Rightarrow> js_error + string"
  and js_join :: "jsval list \<Rightarrow> js_error + string" where
  "js_String JUndefined = Inr ''undefined''"
| "js_String JNull = Inr ''null''"
| "js_String (JBool b) = Inr (if b then ''true'' else ''false'')"
| "js_String (JNum s) = Inr s"
| "js_String (JStr s) = Inr s"
| "js_String (JArr xs) = js_join xs"
| "js_String (JObj kvs) =
     (if ''toString'' \<in> fst ` set kvs
      then Inl (Thrown ''TypeError'' ''Cannot convert object to primitive value'')
      else Inr ''[object Object]'')"
| "js_element v = (if v = JUndefined \<or> v = JNull then Inr [] else js_String v)"
| "js_join [] = Inr []"
| "js_join [x] = js_element x"
| "js_join (x # y # ys) =
     (case js_element x of
        Inl e \<Rightarrow> Inl e
      | Inr s \<Rightarrow> (case js_join (y # ys) of Inl e \<Rightarrow> Inl e | Inr t \<Rightarrow> Inr (s @ '','' @ t)))"

fun js_typeof :: "jsval \<Rightarrow> string" where
  "js_typeof JUndefined = ''undefined''"
| "js_typeof (JBool b) = ''boolean''"
| "js_typeof (JNum s) = ''number''"
| "js_typeof (JStr s) = ''string''"
| "js_typeof _ = ''object''"

fun js_falsy :: "jsval \<Rightarrow> bool" where
  \<comment> \<open>\<^verbatim>\<open>!v\<close>\<close>
  "js_falsy JUndefined = True"
| "js_falsy JNull = True"
| "js_falsy (JBool b) = (\<not> b)"
| "js_falsy (JNum s) = (s = ''0'' \<or> s = ''NaN'')"
| "js_falsy (JStr s) = (s = [])"
| "js_falsy _ = False"

fun get_prop :: "jsval \<Rightarrow> string \<Rightarrow> jsval" where
  \<comment> \<open>the property of a parsed value, for a name that no prototype defines\<close>
  "get_prop (JObj kvs) k = (case map_of kvs k of None \<Rightarrow> JUndefined | Some v \<Rightarrow> v)"
| "get_prop _ k = JUndefined"

definition or_default :: "jsval \<Rightarrow> jsval \<Rightarrow> jsval" where
  \<comment> \<open>a default of a destructuring pattern\<close>
  "or_default v d = (if v = JUndefined then d else v)"

fun string_of :: "jsval \<Rightarrow> string" where
  \<comment> \<open>the string that a value of type \<^verbatim>\<open>string\<close> is\<close>
  "string_of (JStr s) = s"
| "string_of _ = []"

definition invalid_query :: "jsval \<Rightarrow> bool" where
  \<comment> \<open>\<^verbatim>\<open>!query || typeof query !== 'string' || query.trim().length === 0\<close>\<close>
  "invalid_query query =
     (js_falsy query \<or> js_typeof query \<noteq> ''string'' \<or> length (trim (string_of query)) = 0)"

section \<open>The two endpoints\<close>

datatype payload =
  Failure string string "(string \<times> string) list"
| Upstream_failure string nat string string
| Search_results string "result list" nat string string

text \<open>
  \<open>Failure error message fields\<close> is \<^verbatim>\<open>{success: false, error, message, ...}\<close> with its
  further string fields by name (the echo of the whole request is left out);
  \<open>Upstream_failure error status statusText details\<close> is the answer to a failed upstream
  call; \<open>Search_results query results totalResults source timestamp\<close> is
  \<^verbatim>\<open>{success: true, ...}\<close>.
\<close>

record response =
  http_status :: nat
  json :: payload

definition send_upstream ::
  "upstream_request \<Rightarrow> world \<Rightarrow> (js_error + upstream_response) \<times> world" where
  \<comment> \<open>\<^verbatim>\<open>await fetch(...)\<close> and the reading of the answer's text; \<open>Inl\<close> when either fails\<close>
  "send_upstream req w = (upstream w req, w\<lparr>sent := sent w @ [req]\<rparr>)"

definition respond_results ::
  "(string \<Rightarrow> js_error + node list) \<Rightarrow> string \<Rightarrow> string \<Rightarrow> result \<Rightarrow> string \<Rightarrow> world
    \<Rightarrow> response \<times> world" where
  \<comment> \<open>from \<^verbatim>\<open>const results = parseGoogleHTMLWithCheerio(htmlContent, query)\<close> to the answer\<close>
  "respond_results load htmlContent query placeholder src w =
     (case parseGoogleHTMLWithCheerio load htmlContent query w of
        (results, w') \<Rightarrow>
          if length results = 0 then
            (\<lparr>http_status = 200,
              json = Search_results query [placeholder] 1 src (clock w')\<rparr>, w')
          else
            (\<lparr>http_status = 200,
              json = Search_results query results (length results) src (clock w')\<rparr>, w'))"

fun error_message :: "js_error \<Rightarrow> string" where
  \<comment> \<open>\<^verbatim>\<open>error.message || 'Unknown error'\<close>\<close>
  "error_message (Thrown name m) = (if m = [] then ''Unknown error'' else m)"

subsection \<open>POST /api/brightdata\<close>

definition post_request :: "config \<Rightarrow> string \<Rightarrow> string \<Rightarrow> string \<Rightarrow> string \<Rightarrow> upstream_request" where
  "post_request cfg q n h g =
     \<lparr>endpoint = apiUrl cfg,
      authorization = ''Bearer '' @ apiToken cfg,
      user_agent = ''Mirror Search Proxy v1.0'',
      req_zone = zone cfg,
      req_url = ''https://www.google.com/search?q='' @ encodeURIComponent q @
                ''&num='' @ n @ ''&hl='' @ h @ ''&gl='' @ g,
      req_format = ''raw''\<rparr>"

definition post_placeholder :: "string \<Rightarrow> result" where
  "post_placeholder query =
     \<lparr>title = ''No results for \"'' @ query @ ''\"'',
      url = google_search_url query,
      snippet = ''No search results were found. Try using different keywords or check your search terms.'',
      source = ''Bright Data SERP''\<rparr>"

text \<open>The body of the \<^verbatim>\<open>try\<close> block: \<open>Inl\<close> is an exception on its way to \<^verbatim>\<open>catch\<close>.\<close>

definition post_try ::
  "(string \<Rightarrow> js_error + node list) \<Rightarrow> jsval \<Rightarrow> jsval \<Rightarrow> jsval \<Rightarrow> jsval \<Rightarrow> world
    \<Rightarrow> (js_error + response) \<times> world" where
  "post_try load query num hl gl w =
     (case js_String query of
        Inl e \<Rightarrow> (Inl e, w)
      | Inr queryValueDebug \<Rightarrow>
          if invalid_query query then
            (Inr \<lparr>http_status = 400,
                  json = Failure ''Invalid query parameter'' ''Query must be a non-empty string.''
                    [(''debug_proxy_extracted_query_value'', queryValueDebug),
                     (''debug_proxy_extracted_query_type'', js_typeof query)]\<rparr>,
             console_write (Error ''PROXY_ERROR: Invalid query parameter.'') w)
          else if apiToken (BRIGHT_DATA_CONFIG w) = [] then
            (Inr \<lparr>http_status = 500,
                  json = Failure ''Configuration error'' ''Bright Data API token not configured'' []\<rparr>,
             console_write (Error ''PROXY_ERROR: Bright Data API token not configured on server.'') w)
          else
            (case js_String num of Inl e \<Rightarrow> (Inl e, w) | Inr n \<Rightarrow>
            (case js_String hl of Inl e \<Rightarrow> (Inl e, w) | Inr h \<Rightarrow>
            (case js_String gl of Inl e \<Rightarrow> (Inl e, w) | Inr g \<Rightarrow>
            (case send_upstream (post_request (BRIGHT_DATA_CONFIG w) (string_of query) n h g) w of
               (Inl e, w1) \<Rightarrow> (Inl e, w1)
             | (Inr brightDataResponse, w1) \<Rightarrow>
                 if \<not> ok brightDataResponse then
                   (Inr \<lparr>http_status = 502,
                         json = Upstream_failure ''Bright Data API error''
                           (status brightDataResponse) (statusText brightDataResponse)
                           (take 200 (response_text brightDataResponse))\<rparr>,
                    console_write (Error ''PROXY_ERROR: Bright Data API call failed.'') w1)
                 else
                   (case respond_results load (response_text brightDataResponse)
                           (string_of query) (post_placeholder (string_of query))
                           ''Bright Data SERP'' w1 of
                      (res, w2) \<Rightarrow> (Inr res, w2)))))))"

definition post_brightdata ::
  "(string \<Rightarrow> js_error + node list) \<Rightarrow> jsval \<Rightarrow> world \<Rightarrow> response \<times> world" where
  \<comment> \<open>the handler, from the parsed request body \<^verbatim>\<open>req.body\<close>\<close>
  "post_brightdata load req_body w0 =
     (let w = console_write (Log ''PROXY_DEBUG: Path /api/brightdata.'') w0;
          body = (if js_falsy req_body then JObj [] else req_body);
          query = get_prop body ''query'';
          num = or_default (get_prop body ''num'') (JNum ''10'');
          hl = or_default (get_prop body ''hl'') (JStr ''en'');
          gl = or_default (get_prop body ''gl'') (JStr ''us'')
      in case post_try load query num hl gl w of
           (Inr res, w') \<Rightarrow> (res, w')
         | (Inl e, w') \<Rightarrow>
             (\<lparr>http_status = 500,
               json = Failure ''Proxy server error'' (error_message e) [(''timestamp'', clock w')]\<rparr>,
              console_write (Error ''PROXY_ERROR: Unhandled error in /api/brightdata:'') w'))"

subsection \<open>GET /api/brightdataget\<close>

definition get_request :: "config \<Rightarrow> string \<Rightarrow> string \<Rightarrow> string \<Rightarrow> string \<Rightarrow> upstream_request" where
  "get_request cfg q n h g =
     \<lparr>endpoint = apiUrl cfg,
      authorization = ''Bearer '' @ apiToken cfg,
      user_agent = ''Mirror Search Proxy v1.0 (via GET->POST)'',
      req_zone = zone cfg,
      req_url = ''https://www.google.com/search?q='' @ encodeURIComponent q @
                ''&num='' @ encodeURIComponent n @ ''&hl='' @ encodeURIComponent h @
                ''&gl='' @ encodeURIComponent g,
      req_format = ''raw''\<rparr>"

definition get_placeholder :: "string \<Rightarrow> result" where
  \<comment> \<open>the title keeps the two backslashes of the source's template\<close>
  "get_placeholder query =
     \<lparr>title = ''No results for '' @ [CHR 0x5C, CHR 0x22] @ query @ [CHR 0x5C, CHR 0x22],
      url = google_search_url query,
      snippet = ''No search results were found. Try using different keywords.'',
      source = ''Bright Data SERP (via GET->POST Proxy)''\<rparr>"

definition get_try ::
  "(string \<Rightarrow> js_error + node list) \<Rightarrow> jsval \<Rightarrow> jsval \<Rightarrow> jsval \<Rightarrow> jsval \<Rightarrow> world
    \<Rightarrow> (js_error + response) \<times> world" where
  "get_try load query num hl gl w =
     (if apiToken (BRIGHT_DATA_CONFIG w) = [] then
        (Inr \<lparr>http_status = 500,
              json = Failure ''Configuration error'' ''Bright Data API token not configured'' []\<rparr>,
         console_write (Error ''PROXY_ERROR_GET: Bright Data API token not configured on server.'') w)
      else
        (case js_String num of Inl e \<Rightarrow> (Inl e, w) | Inr n \<Rightarrow>
        (case js_String hl of Inl e \<Rightarrow> (Inl e, w) | Inr h \<Rightarrow>
        (case js_String gl of Inl e \<Rightarrow> (Inl e, w) | Inr g \<Rightarrow>
        (case send_upstream (get_request (BRIGHT_DATA_CONFIG w) (string_of query) n h g)
                (console_write (Log ''PROXY_INTERNAL_POST_TO_BRIGHTDATA_GET_ROUTE: Request to BrightData:'') w) of
           (Inl e, w1) \<Rightarrow> (Inl e, w1)
         | (Inr brightDataResponse, w1) \<Rightarrow>
             if \<not> ok brightDataResponse then
               (Inr \<lparr>http_status = 502,
                     json = Upstream_failure ''Bright Data API error (via GET->POST)''
                       (status brightDataResponse) (statusText brightDataResponse)
                       (take 200 (response_text brightDataResponse))\<rparr>,
                console_write (Error ''PROXY_ERROR_GET: Bright Data API call failed.'') w1)
             else
               (case respond_results load (response_text brightDataResponse)
                       (string_of query) (get_placeholder (string_of query))
                       ''Bright Data SERP (via GET->POST Proxy)'' w1 of
                  (res, w2) \<Rightarrow> (Inr res, w2)))))))"

definition get_brightdataget ::
  "(string \<Rightarrow> js_error + node list) \<Rightarrow> jsval \<Rightarrow> world \<Rightarrow> (js_error + response) \<times> world" where
  \<comment> \<open>the handler, from the parsed query string \<^verbatim>\<open>req.query\<close>. The second
      \<^verbatim>\<open>console.log\<close> converts \<^verbatim>\<open>query\<close> to a string outside the \<^verbatim>\<open>try\<close> block:
      \<open>Inl\<close> is the exception that leaves the handler then.\<close>
  "get_brightdataget load params w0 =
     (let w1 = console_write (Log ''GET_ROUTE_ENTRY: Path /api/brightdataget.'') w0;
          query = get_prop params ''query'';
          num = or_default (get_prop params ''num'') (JStr ''10'');
          hl = or_default (get_prop params ''hl'') (JStr ''en'');
          gl = or_default (get_prop params ''gl'') (JStr ''us'')
      in case js_String query of
           Inl e \<Rightarrow> (Inl e, w1)
         | Inr shown \<Rightarrow>
             (let w = console_write (Log ''PROXY_DEBUG_GET: Path /api/brightdataget.'') w1 in
              if invalid_query query then
                (Inr \<lparr>http_status = 400,
                      json = Failure ''Invalid query parameter''
                        ''Query must be a non-empty string (from GET).'' []\<rparr>,
                 console_write (Error ''PROXY_ERROR_GET: Invalid query parameter.'') w)
              else
                (case get_try load query num hl gl w of
                   (Inr res, w') \<Rightarrow> (Inr res, w')
                 | (Inl e, w') \<Rightarrow>
                     (Inr \<lparr>http_status = 500,
                           json = Failure ''Proxy server error (via GET->POST)'' (error_message e)
                             [(''timestamp'', clock w')]\<rparr>,
                      console_write (Error ''PROXY_ERROR_GET: Unhandled error in /api/brightdataget:'') w'))))"

section \<open>The earlier tree-based parser\<close>

text \<open>
  The source file holds three copies of the server. The third defines
  \<^verbatim>\<open>parseGoogleHTMLWithCheerio\<close> again, in an earlier form: other containers, the tests
  for special blocks in two steps, other fallbacks for title and snippet, a wider
  denylist, a title of more than five characters, and no \<^verbatim>\<open>try\<close> around the markup
  parser.
\<close>

definition inside :: "located \<Rightarrow> (node \<Rightarrow> bool) \<Rightarrow> located \<Rightarrow> bool" where
  \<comment> \<open>\<^verbatim>\<open>P ...\<close> inside \<^verbatim>\<open>$(ctx).find\<close>: an ancestor matches \<open>P\<close>, the context element
      itself or one below it\<close>
  "inside ctx P x = list_ex P (take (length (fst x) - length (fst ctx)) (fst x))"

definition resultContainer :: "located \<Rightarrow> bool" where
  \<comment> \<open>\<^verbatim>\<open>#search .g, div.g, div.hlcw0c, div.kvH3mc, div.Ww4FFb\<close>\<close>
  "resultContainer x =
     ((has_class ''g'' (snd x) \<and> list_ex (attr_is ''id'' ''search'') (fst x)) \<or>
      (is_tag ''div'' (snd x) \<and>
       (has_class ''g'' (snd x) \<or> has_class ''hlcw0c'' (snd x) \<or> has_class ''kvH3mc'' (snd x) \<or>
        has_class ''Ww4FFb'' (snd x))))"

definition resultContainers :: "node list \<Rightarrow> located list" where
  "resultContainers doc = select_root doc resultContainer"

definition selection_text :: "located list \<Rightarrow> string" where
  \<comment> \<open>\<^verbatim>\<open>.text()\<close> of a selection: the texts of its elements, one after the other\<close>
  "selection_text sel = concat (map (\<lambda>x. textContent (snd x)) sel)"

definition ad_or_empty :: "located \<Rightarrow> bool" where
  "ad_or_empty resultElement =
     (closest resultElement (attr_is ''data-text-ad'' ''1'') \<noteq> None \<or>
      find_in resultElement (\<lambda>x. is_tag ''span'' (snd x) \<and>
         (contains_text ''Ad'' (snd x) \<or> contains_text ''Sponsored'' (snd x))) \<noteq> [] \<or>
      find_in resultElement (\<lambda>x. is_tag ''div'' (snd x) \<and> attr_is ''role'' ''region'' (snd x) \<and>
         attr_includes ''aria-label'' ''Ads'' (snd x)) \<noteq> [] \<or>
      css resultElement ''display'' = Some ''none'' \<or>
      trim (selection_text (find_in resultElement
         (\<lambda>x. has_attr ''data-hveid'' (snd x) \<and> has_attr ''data-ved'' (snd x)))) = [])"

definition special_block :: "located \<Rightarrow> bool" where
  "special_block resultElement =
     (find_in resultElement (\<lambda>x. is_tag ''div'' (snd x) \<and>
         attr_is ''data-nosnippet'' ''true'' (snd x)) \<noteq> [] \<or>
      find_in resultElement (\<lambda>x. is_tag ''g-accordion-expander'' (snd x)) \<noteq> [] \<or>
      find_in resultElement (heading2 ''People also ask'') \<noteq> [] \<or>
      find_in resultElement (heading2 ''Related searches'') \<noteq> [] \<or>
      find_in resultElement (heading2 ''Top stories'') \<noteq> [] \<or>
      find_in resultElement (heading2 ''Videos'') \<noteq> [])"

definition earlier_title :: "located \<Rightarrow> string" where
  "earlier_title resultElement =
     (let titleElement = find_in resultElement (\<lambda>x. is_tag ''h3'' (snd x));
          t1 = trim (first_text titleElement);
          t2 = (if t1 = [] then
                  (case titleElement of
                     [] \<Rightarrow> t1
                   | h # _ \<Rightarrow>
                       (case find_in h (\<lambda>x. is_tag ''a'' (snd x)) of
                          [] \<Rightarrow> t1
                        | a # _ \<Rightarrow> trim (textContent (snd a))))
                else t1);
          t3 = (if t2 = [] then
                  trim (first_text (find_in resultElement (\<lambda>x. is_tag ''h3'' (snd x) \<and>
                    inside resultElement
                      (\<lambda>p. is_tag ''a'' p \<and> attr_is ''h'' ''ID=SERP'' p) x)))
                else t2)
      in if t3 = [] then
           trim (first_text (find_in resultElement (\<lambda>x. is_tag ''div'' (snd x) \<and>
             attr_is ''role'' ''heading'' (snd x) \<and> attr_is ''aria-level'' ''3'' (snd x))))
         else t3)"

definition earlier_url_rejected :: "ustring set \<Rightarrow> ustring \<Rightarrow> bool" where
  "earlier_url_rejected seenUrls u =
     (u = [] \<or> \<not> startsWith u (ustr ''http'') \<or>
      str_includes u (ustr ''google.com/search'') \<or>
      str_includes u (ustr ''google.com/imgres'') \<or>
      str_includes u (ustr ''google.com/maps'') \<or>
      str_includes u (ustr ''google.com/preferences'') \<or>
      str_includes u (ustr ''accounts.google.com'') \<or>
      str_includes u (ustr ''support.google.com'') \<or>
      str_includes u (ustr ''policies.google.com'') \<or>
      str_includes u (ustr ''webcache.googleusercontent.com'') \<or>
      u \<in> seenUrls)"

definition earlier_snippet :: "located \<Rightarrow> string" where
  "earlier_snippet resultElement =
     (let s1 = trim (first_text (find_in resultElement snippet_selector));
          s2 = (if s1 = [] then
                  trim (first_text (find_in resultElement (\<lambda>x. is_tag ''div'' (snd x) \<and>
                    (attr_is ''style'' ''-webkit-line-clamp:2'' (snd x) \<or>
                     attr_is ''style'' ''-webkit-line-clamp:3'' (snd x)))))
                else s1)
      in if s2 = [] then
           trim (concat (map (\<lambda>span. let spanText = trim (textContent (snd span))
                                     in if length spanText > 20 then spanText @ '' '' else [])
                   (find_in resultElement (\<lambda>x. is_tag ''span'' (snd x)))))
         else s2)"

definition earlier_step :: "located \<Rightarrow> parse_state \<Rightarrow> parse_state" where
  "earlier_step resultElement st =
     (if ad_or_empty resultElement then st
      else if special_block resultElement then st
      else if length (trim (textContent (snd resultElement))) < 50 then st
      else
        (let t = earlier_title resultElement in
         case find_in resultElement (\<lambda>x. is_tag ''a'' (snd x) \<and> has_attr ''href'' (snd x)) of
           [] \<Rightarrow> st
         | linkElement # _ \<Rightarrow>
             (let u = unwrap_url (ustr (href linkElement)) in
              if earlier_url_rejected (snd st) u then st
              else
                (let s = earlier_snippet resultElement in
                 if t \<noteq> [] \<and> u \<noteq> [] \<and> length t > 5 \<and> length s > 10
                 then (fst st @ [\<lparr>title = t, url = u, snippet = s,
                                  source = ''Bright Data SERP (Cheerio)''\<rparr>],
                       insert u (snd st))
                 else st))))"

definition earlier_callback :: "located \<Rightarrow> parse_state \<Rightarrow> bool \<times> parse_state" where
  "earlier_callback resultElement st =
     (if length (fst st) \<ge> 10 then (False, st) else (True, earlier_step resultElement st))"

definition parseGoogleHTMLWithCheerio_earlier ::
  "(string \<Rightarrow> js_error + node list) \<Rightarrow> string \<Rightarrow> string \<Rightarrow> world
    \<Rightarrow> (js_error + result list) \<times> world" where
  \<comment> \<open>\<open>Inl\<close>: the markup parser threw, and so does the function\<close>
  "parseGoogleHTMLWithCheerio_earlier load html query w =
     (if html = [] then
        (Inr [], console_write (Warn ''PROXY_PARSE_WARN: HTML content is missing or not a string.'') w)
      else
        (case load html of
           Inl e \<Rightarrow> (Inl e, w)
         | Inr doc \<Rightarrow>
             (let results = fst (each earlier_callback (resultContainers doc) ([], {})) in
              if results = [] then (Inr [fallbackResult query], w) else (Inr results, w))))"

section \<open>The pattern-based parser\<close>

text \<open>
  The second copy of the server parses the markup with regular expressions
  (\<^verbatim>\<open>parseGoogleHTML\<close>). Its patterns are sequences of literals, single characters of a
  class, greedy and lazy repetitions of a class, and at most one capture group holding
  one repetition. Matching is the backtracking search of the language: a greedy
  repetition tries its longest run first, a lazy one its shortest.
\<close>

datatype atom =
  Lit string
| One "char \<Rightarrow> bool"
| Star "char \<Rightarrow> bool"
| CapStar "char \<Rightarrow> bool"
| CapLazy "char \<Rightarrow> bool"

fun first_some :: "('a \<Rightarrow> 'b option) \<Rightarrow> 'a list \<Rightarrow> 'b option" where
  "first_some f [] = None"
| "first_some f (x # xs) = (case f x of None \<Rightarrow> first_some f xs | Some y \<Rightarrow> Some y)"

definition run_lengths :: "(char \<Rightarrow> bool) \<Rightarrow> string \<Rightarrow> nat list" where
  \<comment> \<open>how many characters a repetition of the class can take at the head of \<open>s\<close>\<close>
  "run_lengths P s = [0 ..< Suc (length (takeWhile P s))]"

primrec rx_match :: "atom list \<Rightarrow> string \<Rightarrow> (string \<times> string) option" where
  \<comment> \<open>a match at the head of the string: the capture and what follows the match\<close>
  "rx_match [] = (\<lambda>s. Some ([], s))"
| "rx_match (a # r) = (\<lambda>s.
     case a of
       Lit l \<Rightarrow> if startsWith s l then rx_match r (drop (length l) s) else None
     | One P \<Rightarrow> (case s of [] \<Rightarrow> None | c # cs \<Rightarrow> if P c then rx_match r cs else None)
     | Star P \<Rightarrow> first_some (\<lambda>i. rx_match r (drop i s)) (rev (run_lengths P s))
     | CapStar P \<Rightarrow>
         first_some (\<lambda>i. map_option (\<lambda>m. (take i s, snd m)) (rx_match r (drop i s)))
           (rev (run_lengths P s))
     | CapLazy P \<Rightarrow>
         first_some (\<lambda>i. map_option (\<lambda>m. (take i s, snd m)) (rx_match r (drop i s)))
           (run_lengths P s))"

text \<open>
  \<^verbatim>\<open>while ((m = pattern.exec(html)) !== null)\<close> with a global pattern: the matches from
  left to right, each search starting where the match before ended. The first argument
  counts the characters still covered by the last match. None of the patterns here
  matches the empty string.
\<close>

fun exec_all :: "nat \<Rightarrow> atom list \<Rightarrow> string \<Rightarrow> string list" where
  "exec_all k r [] = []"
| "exec_all (Suc k) r (c # cs) = exec_all k r cs"
| "exec_all 0 r (c # cs) =
     (case rx_match r (c # cs) of
        None \<Rightarrow> exec_all 0 r cs
      | Some (cap, rest) \<Rightarrow> cap # exec_all (length cs - length rest) r cs)"

fun replace_all :: "nat \<Rightarrow> atom list \<Rightarrow> string \<Rightarrow> string \<Rightarrow> string" where
  \<comment> \<open>\<^verbatim>\<open>s.replace(/pattern/g, by)\<close>\<close>
  "replace_all k r by [] = []"
| "replace_all (Suc k) r by (c # cs) = replace_all k r by cs"
| "replace_all 0 r by (c # cs) =
     (case rx_match r (c # cs) of
        None \<Rightarrow> c # replace_all 0 r by cs
      | Some (cap, rest) \<Rightarrow> by @ replace_all (length cs - length rest) r by cs)"

definition not_char :: "char \<Rightarrow> char \<Rightarrow> bool" where
  \<comment> \<open>\<^verbatim>\<open>[^c]\<close>\<close>
  "not_char c x = (x \<noteq> c)"

definition dot :: "char \<Rightarrow> bool" where
  \<comment> \<open>\<^verbatim>\<open>.\<close>: any character but a line terminator\<close>
  "dot x = (of_char x \<notin> {10::nat, 13})"

definition titlePattern :: "atom list" where
  \<comment> \<open>\<^verbatim>\<open>/<h3[^>]*class="[^"]*LC20lb[^"]*"[^>]*>([^<]*)<\/h3>/g\<close>\<close>
  "titlePattern =
     [Lit ''<h3'', Star (not_char (CHR ''>'')), Lit ''class=\"'', Star (not_char (CHR 0x22)),
      Lit ''LC20lb'', Star (not_char (CHR 0x22)), Lit ''\"'', Star (not_char (CHR ''>'')),
      Lit ''>'', CapStar (not_char (CHR ''<'')), Lit ''</h3>'']"

definition linkPattern :: "atom list" where
  \<comment> \<open>\<^verbatim>\<open>/<a[^>]*href="([^"]*)"[^>]*>/g\<close>\<close>
  "linkPattern =
     [Lit ''<a'', Star (not_char (CHR ''>'')), Lit ''href=\"'', CapStar (not_char (CHR 0x22)),
      Lit ''\"'', Star (not_char (CHR ''>'')), Lit ''>'']"

definition snippetPattern :: "atom list" where
  \<comment> \<open>\<^verbatim>\<open>/<div class="[^"]*VwiC3b[^"]*"[^>]*>(.*?)<\/div>/g\<close>\<close>
  "snippetPattern =
     [Lit ''<div class=\"'', Star (not_char (CHR 0x22)), Lit ''VwiC3b'',
      Star (not_char (CHR 0x22)), Lit ''\"'', Star (not_char (CHR ''>'')), Lit ''>'',
      CapLazy dot, Lit ''</div>'']"

definition external_link :: "string \<Rightarrow> bool" where
  \<comment> \<open>\<^verbatim>\<open>Filter external links only\<close>\<close>
  "external_link u =
     (startsWith u ''http'' \<and>
      \<not> str_includes u ''google.com/url'' \<and>
      \<not> str_includes u ''google.com/search'' \<and>
      \<not> str_includes u ''webcache.googleusercontent.com'' \<and>
      \<not> str_includes u ''accounts.google'' \<and>
      \<not> str_includes u ''policies.google'')"

definition clean_snippet :: "string \<Rightarrow> string" where
  \<comment> \<open>\<^verbatim>\<open>Clean up HTML tags and entities\<close>: the seven replacements, then \<^verbatim>\<open>trim\<close>\<close>
  "clean_snippet m =
     trim (replace_all 0 [One is_space, Star is_space] '' ''
       (replace_all 0 [Lit ''&#39;''] [CHR 0x27]
       (replace_all 0 [Lit ''&quot;''] [CHR 0x22]
       (replace_all 0 [Lit ''&gt;''] ''>''
       (replace_all 0 [Lit ''&lt;''] ''<''
       (replace_all 0 [Lit ''&amp;''] ''&''
       (replace_all 0 [Lit ''<'', Star (not_char (CHR ''>'')), Lit ''>''] [] m)))))))"

definition pattern_result :: "string \<Rightarrow> string list \<Rightarrow> string list \<Rightarrow> string list \<Rightarrow> nat \<Rightarrow> result list" where
  \<comment> \<open>the turn \<open>i\<close> of the loop that pairs titles, links and snippets: what it pushes\<close>
  "pattern_result query titles links snippets i =
     (if titles ! i \<noteq> [] \<and> links ! i \<noteq> [] then
        [\<lparr>title = titles ! i, url = ustr (links ! i),
          snippet = (if i < length snippets then snippets ! i
                     else ''Result for \"'' @ query @ ''\" from Google search''),
          source = ''Bright Data SERP''\<rparr>]
      else [])"

definition parseGoogleHTML :: "string \<Rightarrow> string \<Rightarrow> result list" where
  "parseGoogleHTML html query =
     (if html = [] then []
      else
        (let titles = map (\<lambda>m. trim (replace_all 0 [Lit ''&amp;''] ''&'' m))
                        (exec_all 0 titlePattern html);
             links = filter external_link (exec_all 0 linkPattern html);
             snippets = filter (\<lambda>sn. sn \<noteq> [] \<and> length sn > 5)
                          (map clean_snippet (exec_all 0 snippetPattern html));
             maxResults = min (length titles) (min (length links) 10);
             results = concat (map (pattern_result query titles links snippets) [0 ..< maxResults])
         in if length results = 0 then
              [\<lparr>title = ''Search results for \"'' @ query @ ''\"'',
                url = google_search_url query,
                snippet = ''No specific results extracted. Try using different keywords.'',
                source = ''Bright Data SERP''\<rparr>]
            else results))"

section \<open>Sample inputs\<close>

text \<open>
  A results page with two organic blocks and a sponsored block between them, as the
  document tree the markup parser yields for it; a page whose one candidate block
  encloses a paid placement; a nested redirect link; a page for the pattern-based parser
  with twice the same link; a process state.
\<close>

definition organic :: "string \<Rightarrow> string \<Rightarrow> string \<Rightarrow> node list \<Rightarrow> node" where
  "organic cls t link content =
     Element ''div'' [(''class'', cls)]
       ([Element ''div'' [(''class'', ''yuRUbf'')]
           [Element ''a'' [(''href'', link)] [Element ''h3'' [] [Text t]]]] @ content)"

definition rust_block :: node where
  "rust_block =
     organic ''g'' ''Rust Programming Language'' ''https://www.rust-lang.org/''
       [Element ''div'' [(''class'', ''VwiC3b'')]
          [Text ''A language empowering everyone to build reliable and efficient software.'']]"

definition sponsored_block :: node where
  "sponsored_block =
     organic ''g'' ''Learn Rust in one week'' ''https://courses.example.com/rust''
       [Element ''span'' [] [Text ''Sponsored''],
        Element ''div'' [(''class'', ''VwiC3b'')]
          [Text ''The best course for programmers who want to learn the language quickly.'']]"

definition wiki_block :: node where
  "wiki_block =
     organic ''tF2Cxc'' ''Rust (programming language)''
       ''/url?q=https://en.wikipedia.org/wiki/Rust_(programming_language)&sa=U''
       [Element ''div'' [(''class'', ''VwiC3b'')]
          [Text ''Rust is a general-purpose programming language emphasizing performance.'']]"

definition tracked_block :: node where
  \<comment> \<open>a block with the tracking attributes the earlier parser looks for\<close>
  "tracked_block =
     Element ''div'' [(''class'', ''g'')]
       [Element ''div'' [(''class'', ''yuRUbf''), (''data-hveid'', ''CAQQAA''), (''data-ved'', ''2ahUKEwi'')]
          [Element ''a'' [(''href'', ''https://doc.rust-lang.org/book/'')]
             [Element ''h3'' [] [Text ''The Rust Programming Language'']]],
        Element ''div'' [(''class'', ''VwiC3b'')]
          [Text ''An introductory book about Rust, written by members of the community.'']]"

definition search_div :: node where
  "search_div = Element ''div'' [(''id'', ''search'')] [rust_block, sponsored_block, wiki_block]"

definition body_element :: node where
  "body_element = Element ''body'' [] [search_div]"

definition html_element :: node where
  "html_element = Element ''html'' [] [body_element]"

definition sample_document :: "node list" where
  "sample_document = [html_element]"

definition sample_ancestors :: "node list" where
  "sample_ancestors = [search_div, body_element, html_element]"

definition paid_block :: node where
  \<comment> \<open>a paid placement that looks like an organic result\<close>
  "paid_block =
     Element ''div'' [(''class'', ''g''), (''data-text-ad'', ''1'')]
       [Element ''div'' [(''class'', ''yuRUbf'')]
          [Element ''a'' [(''href'', ''https://ads.example.com/buy'')]
             [Element ''h3'' [] [Text ''Buy Rust courses now'']]],
        Element ''div'' [(''class'', ''VwiC3b'')]
          [Text ''Limited offer: the complete course bundle at half price this week.'']]"

definition wrapper_block :: node where
  \<comment> \<open>a candidate block around the paid placement\<close>
  "wrapper_block = Element ''div'' [(''class'', ''tF2Cxc'')] [paid_block]"

definition paid_search_div :: node where
  "paid_search_div = Element ''div'' [(''id'', ''search'')] [wrapper_block]"

definition paid_body :: node where
  "paid_body = Element ''body'' [] [paid_search_div]"

definition paid_html :: node where
  "paid_html = Element ''html'' [] [paid_body]"

definition wrapper_ancestors :: "node list" where
  "wrapper_ancestors = [paid_search_div, paid_body, paid_html]"

definition paid_load :: "string \<Rightarrow> js_error + node list" where
  "paid_load html = Inr [paid_html]"

definition sample_load :: "string \<Rightarrow> js_error + node list" where
  "sample_load html = Inr sample_document"

definition blank_load :: "string \<Rightarrow> js_error + node list" where
  \<comment> \<open>a page without any element\<close>
  "blank_load html = Inr []"

definition nested_redirect :: ustring where
  "nested_redirect = ustr ''/url?q=/url?q=http://a.b''"

definition repeated_link_page :: string where
  "repeated_link_page =
     ''<h3 class=\"LC20lb\">A</h3><a href=\"http://x.y\"><h3 class=\"LC20lb\">B</h3><a href=\"http://x.y\">''"

definition sample_config :: config where
  "sample_config =
     \<lparr>apiToken = ''token'', zone = ''serp_api1'', apiUrl = ''https://api.brightdata.com/request''\<rparr>"

definition unavailable :: upstream_response where
  "unavailable = \<lparr>status = 503, statusText = ''Service Unavailable'', response_text = ''upstream busy''\<rparr>"

definition empty_page :: upstream_response where
  "empty_page = \<lparr>status = 200, statusText = ''OK'', response_text = []\<rparr>"

definition sample_world :: "upstream_response \<Rightarrow> world" where
  "sample_world answer =
     \<lparr>BRIGHT_DATA_CONFIG = sample_config, clock = ''2025-01-01T00:00:00.000Z'',
      upstream = (\<lambda>req. Inr answer), console = [], sent = []\<rparr>"

definition rust_request :: jsval where
  "rust_request = JObj [(''query'', JStr ''rust programming'')]"

definition object_query_request :: jsval where
  \<comment> \<open>the JSON body \<^verbatim>\<open>{"query": {"toString": 1}}\<close>\<close>
  "object_query_request = JObj [(''query'', JObj [(''toString'', JNum ''1'')])]"

section \<open>Definitions for the proofs\<close>

text \<open>
  The invariant of the loop over the candidate blocks, and what each handler does from
  the moment it sends its request upstream, with the query \<open>q\<close> and the three other
  parameters as strings.
\<close>

definition parse_inv :: "parse_state \<Rightarrow> bool" where
  "parse_inv st =
     (length (fst st) \<le> 10 \<and> distinct (map url (fst st)) \<and>
      url ` set (fst st) \<subseteq> snd st \<and>
      list_all (\<lambda>r. startsWith (url r) (ustr ''http'')) (fst st))"

definition post_after_send ::
  "(string \<Rightarrow> js_error + node list) \<Rightarrow> string \<Rightarrow> string \<Rightarrow> string \<Rightarrow> string \<Rightarrow> world
    \<Rightarrow> response \<times> world" where
  "post_after_send load q n h g w =
     (let req = post_request (BRIGHT_DATA_CONFIG w) q n h g;
            w2 = w\<lparr>console := console w @ [Log ''PROXY_DEBUG: Path /api/brightdata.''],
                   sent := sent w @ [req]\<rparr>
        in case upstream w req of
             Inl e \<Rightarrow>
               (\<lparr>http_status = 500,
                 json = Failure ''Proxy server error'' (error_message e) [(''timestamp'', clock w)]\<rparr>,
                console_write (Error ''PROXY_ERROR: Unhandled error in /api/brightdata:'') w2)
           | Inr r \<Rightarrow>
               if \<not> ok r then
                 (\<lparr>http_status = 502,
                   json = Upstream_failure ''Bright Data API error'' (status r) (statusText r)
                            (take 200 (response_text r))\<rparr>,
                  console_write (Error ''PROXY_ERROR: Bright Data API call failed.'') w2)
               else respond_results load (response_text r) q (post_placeholder q)
                      ''Bright Data SERP'' w2)"

definition get_after_send ::
  "(string \<Rightarrow> js_error + node list) \<Rightarrow> string \<Rightarrow> string \<Rightarrow> string \<Rightarrow> string \<Rightarrow> world
    \<Rightarrow> (js_error + response) \<times> world" where
  "get_after_send load q n h g w =
     (let req = get_request (BRIGHT_DATA_CONFIG w) q n h g;
            w2 = w\<lparr>console := console w @
                    [Log ''GET_ROUTE_ENTRY: Path /api/brightdataget.'',
                     Log ''PROXY_DEBUG_GET: Path /api/brightdataget.'',
                     Log ''PROXY_INTERNAL_POST_TO_BRIGHTDATA_GET_ROUTE: Request to BrightData:''],
                   sent := sent w @ [req]\<rparr>
        in case upstream w req of
             Inl e \<Rightarrow>
               (Inr \<lparr>http_status = 500,
                 json = Failure ''Proxy server error (via GET->POST)'' (error_message e)
                          [(''timestamp'', clock w)]\<rparr>,
                console_write (Error ''PROXY_ERROR_GET: Unhandled error in /api/brightdataget:'') w2)
           | Inr r \<Rightarrow>
               if \<not> ok r then
                 (Inr \<lparr>http_status = 502,
                   json = Upstream_failure ''Bright Data API error (via GET->POST)'' (status r)
                            (statusText r) (take 200 (response_text r))\<rparr>,
                  console_write (Error ''PROXY_ERROR_GET: Bright Data API call failed.'') w2)
               else
                 (Inr (fst (respond_results load (response_text r) q (get_placeholder q)
                         ''Bright Data SERP (via GET->POST Proxy)'' w2)),
                  snd (respond_results load (response_text r) q (get_placeholder q)
                         ''Bright Data SERP (via GET->POST Proxy)'' w2)))"

section \<open>Properties of the loop\<close>

lemma each_invariant:
  assumes step: "\<And>x st. I st \<Longrightarrow> I (snd (f x st))"
  shows "I st \<Longrightarrow> I (each f xs st)"
proof (induction xs arbitrary: st)
  case Nil
  then show ?case by simp
next
  case (Cons x xs)
  from step [OF Cons.prems, of x] have "I (snd (f x st))" .
  with Cons.IH show ?case
    by (cases "f x st") auto
qed

lemma block_step_cases:
  "block_step b st = st \<or>
   (\<exists>link t. link_and_title b = Some (link, t) \<and> 3 < length t \<and>
      \<not> url_rejected (snd st) (unwrap_url (ustr link)) \<and> 10 < length (extract_snippet b) \<and>
      block_step b st =
        (fst st @ [\<lparr>title = t, url = unwrap_url (ustr link), snippet = extract_snippet b,
                    source = ''Bright Data SERP (Cheerio)''\<rparr>],
         insert (unwrap_url (ustr link)) (snd st)))"
  by (auto simp: block_step_def Let_def split: option.splits)

lemma earlier_step_cases:
  "earlier_step b st = st \<or>
   (\<exists>r. earlier_step b st = (fst st @ [r], insert (url r) (snd st)) \<and>
        5 < length (title r) \<and> \<not> earlier_url_rejected (snd st) (url r) \<and>
        10 < length (snippet r))"
  by (auto simp: earlier_step_def Let_def split: list.splits)

lemma url_rejected_fresh: "\<not> url_rejected seen u \<Longrightarrow> u \<notin> seen \<and> startsWith u (ustr ''http'')"
  by (simp add: url_rejected_def)

lemma earlier_url_rejected_fresh:
  "\<not> earlier_url_rejected seen u \<Longrightarrow> u \<notin> seen \<and> startsWith u (ustr ''http'')"
  by (simp add: earlier_url_rejected_def)

lemma parse_inv_push:
  assumes "parse_inv st" "length (fst st) < 10" "u \<notin> snd st" "startsWith u (ustr ''http'')" "url r = u"
  shows "parse_inv (fst st @ [r], insert u (snd st))"
  using assms by (auto simp: parse_inv_def)

lemma block_callback_inv: "parse_inv st \<Longrightarrow> parse_inv (snd (block_callback b st))"
  using block_step_cases [of b st]
  by (auto simp: block_callback_def intro!: parse_inv_push dest: url_rejected_fresh)

lemma earlier_callback_inv: "parse_inv st \<Longrightarrow> parse_inv (snd (earlier_callback b st))"
  using earlier_step_cases [of b st]
  by (auto simp: earlier_callback_def intro!: parse_inv_push dest: earlier_url_rejected_fresh)

lemma parse_inv_init: "parse_inv ([], {})"
  by (simp add: parse_inv_def)

lemma blocks_inv: "parse_inv (each block_callback bs ([], {}))"
  by (rule each_invariant [where I = parse_inv, OF block_callback_inv parse_inv_init])

lemma containers_inv: "parse_inv (each earlier_callback bs ([], {}))"
  by (rule each_invariant [where I = parse_inv, OF earlier_callback_inv parse_inv_init])

lemma each_block_Cons:
  "each block_callback (b # bs) st =
     (if 10 \<le> length (fst st) then st else each block_callback bs (block_step b st))"
  by (simp add: block_callback_def)

lemma each_full: "10 \<le> length (fst st) \<Longrightarrow> each block_callback bs st = st"
  by (cases bs) (simp_all add: each_block_Cons del: each.simps(2))

lemma each_append:
  "each block_callback (xs @ ys) st = each block_callback ys (each block_callback xs st)"
proof (induction xs arbitrary: st)
  case Nil
  then show ?case by simp
next
  case (Cons x xs)
  then show ?case
    by (simp add: each_block_Cons each_full del: each.simps(2))
qed

lemma parse_results_cases:
  "fst (parseGoogleHTMLWithCheerio load html query w) =
     (if html = [] then []
      else case load html of
        Inl e \<Rightarrow> [load_error_result query]
      | Inr doc \<Rightarrow>
          if fst (each block_callback (resultBlocks doc) ([], {})) = [] then [fallbackResult query]
          else fst (each block_callback (resultBlocks doc) ([], {})))"
  by (simp add: parseGoogleHTMLWithCheerio_def Let_def split: sum.splits)

lemma parse_world:
  "\<exists>ls. snd (parseGoogleHTMLWithCheerio load html query w) =
     w\<lparr>console := console w @ Log ''PROXY_PARSE_RAW_HTML_START:'' # ls\<rparr>"
  by (auto simp: parseGoogleHTMLWithCheerio_def Let_def console_write_def split: sum.splits)

lemma google_search_url_http: "startsWith (google_search_url q) (ustr ''http'')"
  by (simp add: google_search_url_def startsWith_def ustr_def)

lemma pattern_result_length: "length (pattern_result q ts ls ss i) \<le> 1"
  by (simp add: pattern_result_def)

lemma concat_bound: "(\<And>x. length (f x) \<le> 1) \<Longrightarrow> length (concat (map f xs)) \<le> length xs"
proof (induction xs)
  case Nil
  then show ?case by simp
next
  case (Cons a xs)
  then have "length (concat (map f xs)) \<le> length xs" by simp
  moreover have "length (f a) \<le> 1" by (rule Cons.prems)
  ultimately show ?case by simp
qed

lemma parseGoogleHTML_length: "length (parseGoogleHTML html query) \<le> 10"
proof -
  have bound: "length (concat (map (pattern_result q ts ls ss) [0 ..< m])) \<le> m" for q ts ls ss m
    using concat_bound [of "pattern_result q ts ls ss" "[0 ..< m]"] pattern_result_length by simp
  have "length (concat (map (pattern_result q ts ls ss) [0 ..< min a (min b 10)])) \<le> 10"
    for q ts ls ss a b
    using bound [of q ts ls ss "min a (min b 10)"] by simp
  then show ?thesis
    by (simp add: parseGoogleHTML_def Let_def)
qed

lemma startsWith_append: "startsWith s (p @ q) \<Longrightarrow> startsWith s p"
  unfolding startsWith_def
  by (metis append_eq_conv_conj length_append take_take min.absorb1 le_add1)

lemma str_includes_append: "str_includes s (p @ q) \<Longrightarrow> str_includes s p"
  by (induction s) (auto dest: startsWith_append)

lemma earlier_validation_implies:
  "\<not> earlier_url_rejected seen u \<Longrightarrow> \<not> url_rejected seen u"
  using str_includes_append [of u "ustr ''google.com/search''" "ustr ''?''"]
    str_includes_append [of u "ustr ''support.google.com''" "ustr ''/websearch/answer''"]
  by (auto simp: earlier_url_rejected_def url_rejected_def ustr_def)

lemma http_not_redirect: "startsWith v (ustr ''http'') \<Longrightarrow> \<not> startsWith v (ustr ''/url?q='')"
  by (cases v) (auto simp: startsWith_def ustr_def)

lemma unwrap_url_id: "\<not> startsWith v (ustr ''/url?q='') \<Longrightarrow> unwrap_url v = v"
  by (simp add: unwrap_url_def)

lemma sample_blocks:
  "resultBlocks sample_document =
     [(sample_ancestors, rust_block), (sample_ancestors, sponsored_block),
      (sample_ancestors, wiki_block)]"
  by code_simp

lemma sample_results:
  "fst (parseGoogleHTMLWithCheerio sample_load ''<html>'' ''rust programming''
          (sample_world empty_page)) =
     [\<lparr>title = ''Rust Programming Language'', url = ustr ''https://www.rust-lang.org/'',
       snippet = ''A language empowering everyone to build reliable and efficient software.'',
       source = ''Bright Data SERP (Cheerio)''\<rparr>,
      \<lparr>title = ''Rust (programming language)'',
       url = ustr ''https://en.wikipedia.org/wiki/Rust_(programming_language)'',
       snippet = ''Rust is a general-purpose programming language emphasizing performance.'',
       source = ''Bright Data SERP (Cheerio)''\<rparr>]"
  by code_simp

section \<open>Properties of the endpoints\<close>

lemma parse_world_fields:
  "sent (snd (parseGoogleHTMLWithCheerio load html query w)) = sent w"
  "clock (snd (parseGoogleHTMLWithCheerio load html query w)) = clock w"
  "upstream (snd (parseGoogleHTMLWithCheerio load html query w)) = upstream w"
  "BRIGHT_DATA_CONFIG (snd (parseGoogleHTMLWithCheerio load html query w)) = BRIGHT_DATA_CONFIG w"
  using parse_world [of load html query w] by auto

lemma respond_results_eq:
  "respond_results load html q ph src w =
     (\<lparr>http_status = 200,
       json = Search_results q
         (if fst (parseGoogleHTMLWithCheerio load html q w) = [] then [ph]
          else fst (parseGoogleHTMLWithCheerio load html q w))
         (if fst (parseGoogleHTMLWithCheerio load html q w) = [] then 1
          else length (fst (parseGoogleHTMLWithCheerio load html q w)))
         src (clock w)\<rparr>,
      snd (parseGoogleHTMLWithCheerio load html q w))"
  by (cases "parseGoogleHTMLWithCheerio load html q w")
     (use parse_world_fields(2) [of load html q w] in \<open>simp add: respond_results_def\<close>)

lemma valid_query_string: "\<not> invalid_query query \<Longrightarrow> \<exists>q. query = JStr q \<and> q \<noteq> [] \<and> trim q \<noteq> []"
  by (cases query) (auto simp: invalid_query_def)

lemma post_try_no_send:
  assumes "js_String query = Inl e \<or> invalid_query query \<or> apiToken (BRIGHT_DATA_CONFIG w) = []
     \<or> js_String num = Inl e \<or> js_String hl = Inl e \<or> js_String gl = Inl e"
  shows "sent (snd (post_try load query num hl gl w)) = sent w"
  using assms
  by (auto simp: post_try_def console_write_def split: sum.splits)

lemma post_try_send:
  assumes "\<not> invalid_query query" "apiToken (BRIGHT_DATA_CONFIG w) \<noteq> []"
    and "js_String num = Inr n" "js_String hl = Inr h" "js_String gl = Inr g"
  shows "post_try load query num hl gl w =
     (case upstream w (post_request (BRIGHT_DATA_CONFIG w) (string_of query) n h g) of
        Inl e \<Rightarrow> (Inl e, w\<lparr>sent := sent w @ [post_request (BRIGHT_DATA_CONFIG w) (string_of query) n h g]\<rparr>)
      | Inr r \<Rightarrow>
          if \<not> ok r then
            (Inr \<lparr>http_status = 502,
                  json = Upstream_failure ''Bright Data API error'' (status r) (statusText r)
                           (take 200 (response_text r))\<rparr>,
             console_write (Error ''PROXY_ERROR: Bright Data API call failed.'')
               (w\<lparr>sent := sent w @ [post_request (BRIGHT_DATA_CONFIG w) (string_of query) n h g]\<rparr>))
          else
            (Inr (fst (respond_results load (response_text r) (string_of query)
                    (post_placeholder (string_of query)) ''Bright Data SERP''
                    (w\<lparr>sent := sent w @ [post_request (BRIGHT_DATA_CONFIG w) (string_of query) n h g]\<rparr>))),
             snd (respond_results load (response_text r) (string_of query)
                    (post_placeholder (string_of query)) ''Bright Data SERP''
                    (w\<lparr>sent := sent w @ [post_request (BRIGHT_DATA_CONFIG w) (string_of query) n h g]\<rparr>))))"
proof -
  from assms(1) obtain q where "query = JStr q" using valid_query_string by blast
  with assms show ?thesis
    by (simp add: post_try_def send_upstream_def split: sum.splits prod.splits)
qed

lemma post_brightdata_run:
  "sent (snd (post_brightdata load req_body w)) = sent w \<or>
   (\<exists>q n h g. get_prop req_body ''query'' = JStr q \<and>
      sent (snd (post_brightdata load req_body w)) =
        sent w @ [post_request (BRIGHT_DATA_CONFIG w) q n h g] \<and>
      post_brightdata load req_body w = post_after_send load q n h g w)"
proof -
  define body where "body = (if js_falsy req_body then JObj [] else req_body)"
  define query where "query = get_prop body ''query''"
  define num where "num = or_default (get_prop body ''num'') (JNum ''10'')"
  define hl where "hl = or_default (get_prop body ''hl'') (JStr ''en'')"
  define gl where "gl = or_default (get_prop body ''gl'') (JStr ''us'')"
  define w1 where "w1 = console_write (Log ''PROXY_DEBUG: Path /api/brightdata.'') w"
  have post: "post_brightdata load req_body w =
      (case post_try load query num hl gl w1 of
         (Inr res, w') \<Rightarrow> (res, w')
       | (Inl e, w') \<Rightarrow>
           (\<lparr>http_status = 500,
             json = Failure ''Proxy server error'' (error_message e) [(''timestamp'', clock w')]\<rparr>,
            console_write (Error ''PROXY_ERROR: Unhandled error in /api/brightdata:'') w'))"
    by (simp add: post_brightdata_def Let_def body_def query_def num_def hl_def gl_def w1_def)
  have sent_post: "sent (snd (post_brightdata load req_body w)) =
      sent (snd (post_try load query num hl gl w1))"
    unfolding post by (simp add: console_write_def split: prod.splits sum.splits)
  have w1: "sent w1 = sent w" "upstream w1 = upstream w"
    "BRIGHT_DATA_CONFIG w1 = BRIGHT_DATA_CONFIG w" "clock w1 = clock w"
    by (simp_all add: w1_def console_write_def)
  show ?thesis
  proof (cases "invalid_query query \<or> apiToken (BRIGHT_DATA_CONFIG w1) = [] \<or>
      (\<exists>e. js_String num = Inl e \<or> js_String hl = Inl e \<or> js_String gl = Inl e)")
    case True
    then have "sent (snd (post_try load query num hl gl w1)) = sent w1"
      using post_try_no_send [of query _ w1 num hl gl load] by blast
    then show ?thesis by (simp add: sent_post w1)
  next
    case False
    then obtain n h g where valid: "\<not> invalid_query query" "apiToken (BRIGHT_DATA_CONFIG w1) \<noteq> []"
      and strs: "js_String num = Inr n" "js_String hl = Inr h" "js_String gl = Inr g"
      by (metis sum.exhaust)
    from valid(1) obtain q where q: "query = JStr q" using valid_query_string by blast
    then have "body = req_body"
      by (auto simp: body_def query_def)
    with q have qp: "get_prop req_body ''query'' = JStr q" by (simp add: query_def)
    have run: "post_brightdata load req_body w = post_after_send load q n h g w"
      unfolding post post_try_send [OF valid strs, of load] post_after_send_def
      by (simp add: q w1 Let_def split: sum.splits) (simp add: w1_def console_write_def)
    have "sent (snd (post_brightdata load req_body w)) =
        sent w @ [post_request (BRIGHT_DATA_CONFIG w) q n h g]"
      unfolding run
      by (simp add: post_after_send_def get_after_send_def Let_def console_write_def
          respond_results_eq parse_world_fields split: sum.splits)
    with qp run show ?thesis by blast
  qed
qed

lemma get_try_no_send:
  assumes "apiToken (BRIGHT_DATA_CONFIG w) = []
     \<or> js_String num = Inl e \<or> js_String hl = Inl e \<or> js_String gl = Inl e"
  shows "sent (snd (get_try load query num hl gl w)) = sent w"
  using assms
  by (auto simp: get_try_def console_write_def split: sum.splits)

lemma get_try_send:
  assumes "apiToken (BRIGHT_DATA_CONFIG w) \<noteq> []"
    and "js_String num = Inr n" "js_String hl = Inr h" "js_String gl = Inr g"
  shows "get_try load query num hl gl w =
     (let req = get_request (BRIGHT_DATA_CONFIG w) (string_of query) n h g;
          w2 = w\<lparr>console := console w @
                  [Log ''PROXY_INTERNAL_POST_TO_BRIGHTDATA_GET_ROUTE: Request to BrightData:''],
                 sent := sent w @ [req]\<rparr>
      in case upstream w req of
        Inl e \<Rightarrow> (Inl e, w2)
      | Inr r \<Rightarrow>
          if \<not> ok r then
            (Inr \<lparr>http_status = 502,
                  json = Upstream_failure ''Bright Data API error (via GET->POST)'' (status r)
                           (statusText r) (take 200 (response_text r))\<rparr>,
             console_write (Error ''PROXY_ERROR_GET: Bright Data API call failed.'') w2)
          else
            (Inr (fst (respond_results load (response_text r) (string_of query)
                    (get_placeholder (string_of query))
                    ''Bright Data SERP (via GET->POST Proxy)'' w2)),
             snd (respond_results load (response_text r) (string_of query)
                    (get_placeholder (string_of query))
                    ''Bright Data SERP (via GET->POST Proxy)'' w2)))"
  using assms
  by (simp add: get_try_def send_upstream_def console_write_def Let_def
      split: sum.splits prod.splits)

lemma get_brightdataget_run:
  "sent (snd (get_brightdataget load params w)) = sent w \<or>
   (\<exists>q n h g. get_prop params ''query'' = JStr q \<and>
      sent (snd (get_brightdataget load params w)) =
        sent w @ [get_request (BRIGHT_DATA_CONFIG w) q n h g] \<and>
      get_brightdataget load params w = get_after_send load q n h g w)"
proof -
  define query where "query = get_prop params ''query''"
  define num where "num = or_default (get_prop params ''num'') (JStr ''10'')"
  define hl where "hl = or_default (get_prop params ''hl'') (JStr ''en'')"
  define gl where "gl = or_default (get_prop params ''gl'') (JStr ''us'')"
  define w1 where "w1 = console_write (Log ''GET_ROUTE_ENTRY: Path /api/brightdataget.'') w"
  define w2 where "w2 = console_write (Log ''PROXY_DEBUG_GET: Path /api/brightdataget.'') w1"
  have get: "get_brightdataget load params w =
      (case js_String query of
         Inl e \<Rightarrow> (Inl e, w1)
       | Inr shown \<Rightarrow>
           if invalid_query query then
             (Inr \<lparr>http_status = 400,
                   json = Failure ''Invalid query parameter''
                     ''Query must be a non-empty string (from GET).'' []\<rparr>,
              console_write (Error ''PROXY_ERROR_GET: Invalid query parameter.'') w2)
           else
             (case get_try load query num hl gl w2 of
                (Inr res, w') \<Rightarrow> (Inr res, w')
              | (Inl e, w') \<Rightarrow>
                  (Inr \<lparr>http_status = 500,
                        json = Failure ''Proxy server error (via GET->POST)'' (error_message e)
                          [(''timestamp'', clock w')]\<rparr>,
                   console_write (Error ''PROXY_ERROR_GET: Unhandled error in /api/brightdataget:'') w')))"
    unfolding get_brightdataget_def Let_def query_def num_def hl_def gl_def w1_def w2_def
    by (rule refl)
  have w2: "sent w2 = sent w" "upstream w2 = upstream w"
    "BRIGHT_DATA_CONFIG w2 = BRIGHT_DATA_CONFIG w" "clock w2 = clock w"
    "sent w1 = sent w"
    by (simp_all add: w1_def w2_def console_write_def)
  show ?thesis
  proof (cases "invalid_query query \<or> apiToken (BRIGHT_DATA_CONFIG w2) = [] \<or>
      (\<exists>e. js_String num = Inl e \<or> js_String hl = Inl e \<or> js_String gl = Inl e)")
    case True
    have "sent (snd (get_brightdataget load params w)) = sent w"
    proof (cases "invalid_query query")
      case True
      then show ?thesis
        unfolding get by (simp add: w2 console_write_def split: sum.splits)
    next
      case False
      with True have "sent (snd (get_try load query num hl gl w2)) = sent w2"
        using get_try_no_send [of w2 num _ hl gl load query] by blast
      then show ?thesis
        unfolding get by (auto simp: w2 console_write_def split: sum.splits prod.splits)
    qed
    then show ?thesis by simp
  next
    case False
    then obtain n h g where valid: "\<not> invalid_query query" "apiToken (BRIGHT_DATA_CONFIG w2) \<noteq> []"
      and strs: "js_String num = Inr n" "js_String hl = Inr h" "js_String gl = Inr g"
      by (metis sum.exhaust)
    from valid(1) obtain q where q: "query = JStr q" using valid_query_string by blast
    then have qp: "get_prop params ''query'' = JStr q" by (simp add: query_def)
    have run: "get_brightdataget load params w = get_after_send load q n h g w"
      unfolding get get_try_send [OF valid(2) strs, of load query] get_after_send_def
      using valid(1)
      by (simp add: q w2 Let_def split: sum.splits) (simp add: w1_def w2_def console_write_def)
    have "sent (snd (get_brightdataget load params w)) =
        sent w @ [get_request (BRIGHT_DATA_CONFIG w) q n h g]"
      unfolding run
      by (simp add: post_after_send_def get_after_send_def Let_def console_write_def
          respond_results_eq parse_world_fields split: sum.splits)
    with qp run show ?thesis by blast
  qed
qed

lemma parse_empty_markup:
  "parseGoogleHTMLWithCheerio load [] q w =
     ([], w\<lparr>console := console w @
            [Log ''PROXY_PARSE_RAW_HTML_START:'',
             Warn ''PROXY_PARSE_WARN: HTML content is missing or not a string.'']\<rparr>)"
  by (simp add: parseGoogleHTMLWithCheerio_def console_write_def)

lemma post_invalid_query_400:
  assumes "js_String (get_prop req_body ''query'') = Inr shown"
    and "invalid_query (get_prop req_body ''query'')"
  shows "http_status (fst (post_brightdata load req_body w)) = 400 \<and>
         sent (snd (post_brightdata load req_body w)) = sent w"
  using assms
  by (cases "js_falsy req_body")
     (simp_all add: post_brightdata_def post_try_def Let_def console_write_def invalid_query_def)

lemma get_invalid_query_400:
  assumes "js_String (get_prop params ''query'') = Inr shown"
    and "invalid_query (get_prop params ''query'')"
  shows "\<exists>res. fst (get_brightdataget load params w) = Inr res \<and> http_status res = 400 \<and>
         sent (snd (get_brightdataget load params w)) = sent w"
  using assms
  by (simp add: get_brightdataget_def Let_def console_write_def)

lemma blank_queries_invalid:
  "invalid_query JUndefined" "invalid_query JNull" "invalid_query (JBool b)"
  "invalid_query (JNum n)" "invalid_query (JArr xs)" "invalid_query (JObj kvs)"
  "trim q = [] \<Longrightarrow> invalid_query (JStr q)"
  by (simp_all add: invalid_query_def)

lemma sample_post_sent:
  "sent (snd (post_brightdata sample_load rust_request (sample_world answer))) =
     sent (sample_world answer) @ [post_request sample_config ''rust programming'' ''10'' ''en'' ''us'']"
proof -
  have q: "\<not> invalid_query (JStr ''rust programming'')" by code_simp
  then show ?thesis
  by (simp add: post_brightdata_def post_try_def Let_def rust_request_def sample_world_def
      or_default_def send_upstream_def console_write_def sample_config_def
      respond_results_eq parse_world_fields split: sum.splits)
qed

lemma sample_get_sent:
  "sent (snd (get_brightdataget sample_load rust_request (sample_world answer))) =
     sent (sample_world answer) @ [get_request sample_config ''rust programming'' ''10'' ''en'' ''us'']"
proof -
  have q: "\<not> invalid_query (JStr ''rust programming'')" by code_simp
  then show ?thesis
  by (simp add: get_brightdataget_def get_try_def Let_def rust_request_def sample_world_def
      or_default_def send_upstream_def console_write_def sample_config_def
      respond_results_eq parse_world_fields split: sum.splits)
qed

section \<open>The claims\<close>

text \<open>
  C1. Claimed: for every markup string and query, \<^verbatim>\<open>parseGoogleHTMLWithCheerio\<close> returns a
  non-empty list, one placeholder when no organic result is extracted. The function
  returns the empty array for the empty markup string, which its first test sends back
  at once.
\<close>

theorem parse_empty_markup_counterexample:
  "fst (parseGoogleHTMLWithCheerio sample_load [] ''rust programming''
          (sample_world empty_page)) = []"
  by (simp add: parseGoogleHTMLWithCheerio_def)

text \<open>
  C1, as amended: the list that \<^verbatim>\<open>parseGoogleHTMLWithCheerio\<close> returns is empty exactly
  when the markup string is empty. For a non-empty markup string that loads and yields no
  organic result, it is the one placeholder result of the query.
\<close>

theorem parse_empty_only_for_empty_markup:
  "(fst (parseGoogleHTMLWithCheerio load html query w) = [] \<longleftrightarrow> html = []) \<and>
   (html \<noteq> [] \<and> load html = Inr doc \<and>
    fst (each block_callback (resultBlocks doc) ([], {})) = [] \<longrightarrow>
      fst (parseGoogleHTMLWithCheerio load html query w) = [fallbackResult query])"
  by (auto simp: parse_results_cases split: sum.splits)

theorem parse_empty_only_for_empty_markup_witness:
  "''<html>'' \<noteq> [] \<and> blank_load ''<html>'' = Inr [] \<and>
   fst (each block_callback (resultBlocks []) ([], {})) = [] \<and>
   fst (parseGoogleHTMLWithCheerio blank_load ''<html>'' ''zzz_no_such_thing_123''
          (sample_world empty_page)) = [fallbackResult ''zzz_no_such_thing_123'']"
proof -
  have h: "''<html>'' \<noteq> [] \<and> blank_load ''<html>'' = Inr [] \<and>
      fst (each block_callback (resultBlocks []) ([], {})) = []"
    by (simp add: blank_load_def resultBlocks_def select_root_def)
  with parse_empty_only_for_empty_markup
    [of blank_load "''<html>''" "''zzz_no_such_thing_123''" "sample_world empty_page" "[]"]
  show ?thesis by blast
qed

text \<open>
  C2. Claimed: for every markup string and query, the list the parser returns has at most
  ten elements and pairwise distinct URLs. The pattern-based parser \<^verbatim>\<open>parseGoogleHTML\<close>
  pairs the i-th title with the i-th link and keeps no record of the links it has used:
  a page with twice the same link gives two results with one URL.
\<close>

theorem parseGoogleHTML_repeated_url_counterexample:
  "map url (parseGoogleHTML repeated_link_page ''q'') = [ustr ''http://x.y'', ustr ''http://x.y'']"
  by code_simp

text \<open>
  C2, as amended: for every markup string and query, the list returned has at most ten
  elements, for each of the three parsers; its URLs are pairwise distinct for both forms
  of \<^verbatim>\<open>parseGoogleHTMLWithCheerio\<close>.
\<close>

theorem parsers_at_most_ten_results:
  "length (fst (parseGoogleHTMLWithCheerio load html query w)) \<le> 10 \<and>
   distinct (map url (fst (parseGoogleHTMLWithCheerio load html query w))) \<and>
   (case fst (parseGoogleHTMLWithCheerio_earlier load html query w) of
      Inl e \<Rightarrow> True
    | Inr rs \<Rightarrow> length rs \<le> 10 \<and> distinct (map url rs)) \<and>
   length (parseGoogleHTML page q) \<le> 10"
proof -
  have "length (fst (parseGoogleHTMLWithCheerio load html query w)) \<le> 10 \<and>
      distinct (map url (fst (parseGoogleHTMLWithCheerio load html query w)))"
    using blocks_inv
    by (auto simp: parse_results_cases parse_inv_def split: sum.splits)
  moreover have "case fst (parseGoogleHTMLWithCheerio_earlier load html query w) of
      Inl e \<Rightarrow> True
    | Inr rs \<Rightarrow> length rs \<le> 10 \<and> distinct (map url rs)"
    using containers_inv
    by (auto simp: parseGoogleHTMLWithCheerio_earlier_def Let_def parse_inv_def split: sum.splits)
  ultimately show ?thesis
    using parseGoogleHTML_length by blast
qed

theorem parsers_at_most_ten_results_witness:
  "length (fst (parseGoogleHTMLWithCheerio sample_load ''<html>'' ''rust programming''
             (sample_world empty_page))) = 2 \<and>
   distinct (map url (fst (parseGoogleHTMLWithCheerio sample_load ''<html>'' ''rust programming''
             (sample_world empty_page)))) \<and>
   length (parseGoogleHTML repeated_link_page ''q'') \<le> 10"
  using parsers_at_most_ten_results
    [of sample_load "''<html>''" "''rust programming''" "sample_world empty_page"
        repeated_link_page "''q''"]
  by (simp add: sample_results)

text \<open>
  C3. Claimed: for every candidate block classed as an ad or a special feature, no result
  derived from that block appears in the output list. The test is made block by block,
  on the block, its ancestors (for the paid placement) and its descendants (for the
  markers). A candidate block that encloses a paid placement and bears no marker itself
  is not classed, and its turn takes title, link and snippet from the paid placement
  inside it.
\<close>

theorem flagged_block_inside_candidate_counterexample:
  "resultBlocks [paid_html] =
     [(wrapper_ancestors, wrapper_block), (wrapper_block # wrapper_ancestors, paid_block)] \<and>
   ad_or_special (wrapper_block # wrapper_ancestors, paid_block) \<and>
   link_and_title (wrapper_block # wrapper_ancestors, paid_block) =
     Some (''https://ads.example.com/buy'', ''Buy Rust courses now'') \<and>
   extract_snippet (wrapper_block # wrapper_ancestors, paid_block) =
     ''Limited offer: the complete course bundle at half price this week.'' \<and>
   fst (parseGoogleHTMLWithCheerio paid_load ''<html>'' ''rust programming''
          (sample_world empty_page)) =
     [\<lparr>title = ''Buy Rust courses now'', url = ustr ''https://ads.example.com/buy'',
       snippet = ''Limited offer: the complete course bundle at half price this week.'',
       source = ''Bright Data SERP (Cheerio)''\<rparr>]"
  by code_simp

text \<open>
  C3, as amended: for every candidate block that the opening test of the loop body
  classes as an ad or a special feature (inside a paid placement, with an Ad or Sponsored
  marker, with one of the known feature containers, or styled invisible), the turn of
  that block adds no result, whatever its title, link and snippet are: the body leaves
  the results and the set of seen URLs as they were, and the loop over the candidates
  ends as it does with that block taken out of them. The test is made for each candidate
  on its own; a candidate around or inside a classed block is kept or skipped by its own
  test.
\<close>

theorem ad_or_special_block_adds_nothing:
  "ad_or_special b \<Longrightarrow>
     block_step b st = st \<and>
     each block_callback (xs @ b # ys) st = each block_callback (xs @ ys) st"
proof -
  assume ad: "ad_or_special b"
  then have skip: "block_step b s = s" for s
    by (simp add: block_step_def)
  have "each block_callback (b # ys) s = each block_callback ys s" for s
    by (simp add: each_block_Cons each_full skip del: each.simps(2))
  then show ?thesis
    by (simp add: each_append [of xs] skip)
qed

theorem ad_or_special_block_adds_nothing_witness:
  "ad_or_special (sample_ancestors, sponsored_block) \<and>
   block_step (sample_ancestors, sponsored_block) ([], {}) = ([], {}) \<and>
   each block_callback
     [(sample_ancestors, rust_block), (sample_ancestors, sponsored_block),
      (sample_ancestors, wiki_block)] ([], {}) =
   each block_callback [(sample_ancestors, rust_block), (sample_ancestors, wiki_block)] ([], {})"
proof -
  have h: "ad_or_special (sample_ancestors, sponsored_block)"
    by code_simp
  from ad_or_special_block_adds_nothing
    [OF h, of "([], {})" "[(sample_ancestors, rust_block)]" "[(sample_ancestors, wiki_block)]"] h
  show ?thesis by simp
qed

text \<open>
  C4. Claimed: the unwrap step is idempotent on every URL string. It removes one layer:
  a redirect link whose \<^verbatim>\<open>q\<close> parameter is again a redirect link is unwrapped further
  by a second application.
\<close>

theorem unwrap_url_nested_counterexample:
  "unwrap_url (unwrap_url nested_redirect) \<noteq> unwrap_url nested_redirect"
  by code_simp

text \<open>
  C4, as amended: applying the unwrap step twice yields the same as applying it once for
  every URL whose unwrapped form does not begin with \<^verbatim>\<open>/url?q=\<close>; so for every URL
  whose unwrapped form begins with \<^verbatim>\<open>http\<close>, as every URL that passes the validation
  does.
\<close>

theorem unwrap_url_idempotent_once_unwrapped:
  "(\<not> startsWith (unwrap_url u) (ustr ''/url?q='') \<longrightarrow> unwrap_url (unwrap_url u) = unwrap_url u) \<and>
   (startsWith (unwrap_url u) (ustr ''http'') \<longrightarrow> unwrap_url (unwrap_url u) = unwrap_url u)"
  using http_not_redirect unwrap_url_id by blast

theorem unwrap_url_idempotent_once_unwrapped_witness:
  "startsWith (unwrap_url (ustr ''/url?q=https://en.wikipedia.org/wiki/Rust&sa=U'')) (ustr ''http'') \<and>
   unwrap_url (ustr ''/url?q=https://en.wikipedia.org/wiki/Rust&sa=U'') = ustr ''https://en.wikipedia.org/wiki/Rust'' \<and>
   unwrap_url (unwrap_url (ustr ''/url?q=https://en.wikipedia.org/wiki/Rust&sa=U'')) =
     unwrap_url (ustr ''/url?q=https://en.wikipedia.org/wiki/Rust&sa=U'')"
proof -
  have v: "unwrap_url (ustr ''/url?q=https://en.wikipedia.org/wiki/Rust&sa=U'') = ustr ''https://en.wikipedia.org/wiki/Rust''"
    by code_simp
  have h: "startsWith (unwrap_url (ustr ''/url?q=https://en.wikipedia.org/wiki/Rust&sa=U'')) (ustr ''http'')"
    unfolding v by (simp add: startsWith_def ustr_def)
  from unwrap_url_idempotent_once_unwrapped [of "ustr ''/url?q=https://en.wikipedia.org/wiki/Rust&sa=U''"] h v
  show ?thesis by blast
qed

text \<open>
  C5. Claimed: a query value that is an empty string, a whitespace-only string or not a
  string is answered with status 400 by both endpoints, before any upstream call. The
  POST handler converts the value with \<^verbatim>\<open>String(query)\<close> for its debug output before it
  validates; for the JSON body \<^verbatim>\<open>{"query": {"toString": 1}}\<close> that conversion throws
  inside the \<^verbatim>\<open>try\<close> block, and the answer is status 500 from \<^verbatim>\<open>catch\<close>, not 400.
  No request goes upstream.
\<close>

theorem post_object_query_answers_500:
  "fst (post_brightdata load object_query_request w) =
     \<lparr>http_status = 500,
      json = Failure ''Proxy server error'' ''Cannot convert object to primitive value''
               [(''timestamp'', clock w)]\<rparr> \<and>
   sent (snd (post_brightdata load object_query_request w)) = sent w \<and>
   js_typeof (get_prop object_query_request ''query'') = ''object'' \<and>
   invalid_query (get_prop object_query_request ''query'')"
  by (simp add: post_brightdata_def object_query_request_def post_try_def Let_def
      console_write_def invalid_query_def)

theorem post_object_query_answers_500_witness:
  "http_status (fst (post_brightdata sample_load object_query_request
      (sample_world unavailable))) = 500 \<and>
   sent (snd (post_brightdata sample_load object_query_request (sample_world unavailable))) = [] \<and>
   js_typeof (get_prop object_query_request ''query'') = ''object''"
  using post_object_query_answers_500 [of sample_load "sample_world unavailable"]
  by (simp add: sample_world_def)

text \<open>
  C6. For every candidate block, in either form of the tree-based parser, the body of the
  loop either leaves the results as they are, without an error, or appends one result
  whose title is longer than 3 characters, whose URL passed the validation (it begins
  with \<^verbatim>\<open>http\<close>, is not on the denylist and was not seen before) and whose snippet is
  longer than 10 characters.
\<close>

theorem acceptance_gate:
  "(block_step b st = st \<or>
    (\<exists>link t. link_and_title b = Some (link, t) \<and>
       3 < length t \<and>
       startsWith (unwrap_url (ustr link)) (ustr ''http'') \<and> \<not> url_rejected (snd st) (unwrap_url (ustr link)) \<and>
       unwrap_url (ustr link) \<notin> snd st \<and>
       10 < length (extract_snippet b) \<and>
       block_step b st =
         (fst st @ [\<lparr>title = t, url = unwrap_url (ustr link), snippet = extract_snippet b,
                     source = ''Bright Data SERP (Cheerio)''\<rparr>],
          insert (unwrap_url (ustr link)) (snd st)))) \<and>
   (earlier_step b st = st \<or>
    (\<exists>r. earlier_step b st = (fst st @ [r], insert (url r) (snd st)) \<and>
       3 < length (title r) \<and>
       startsWith (url r) (ustr ''http'') \<and> \<not> url_rejected (snd st) (url r) \<and>
       url r \<notin> snd st \<and>
       10 < length (snippet r)))"
proof -
  have "block_step b st = st \<or>
    (\<exists>link t. link_and_title b = Some (link, t) \<and>
       3 < length t \<and>
       startsWith (unwrap_url (ustr link)) (ustr ''http'') \<and> \<not> url_rejected (snd st) (unwrap_url (ustr link)) \<and>
       unwrap_url (ustr link) \<notin> snd st \<and>
       10 < length (extract_snippet b) \<and>
       block_step b st =
         (fst st @ [\<lparr>title = t, url = unwrap_url (ustr link), snippet = extract_snippet b,
                     source = ''Bright Data SERP (Cheerio)''\<rparr>],
          insert (unwrap_url (ustr link)) (snd st)))"
    using block_step_cases [of b st] url_rejected_fresh by blast
  moreover have "earlier_step b st = st \<or>
    (\<exists>r. earlier_step b st = (fst st @ [r], insert (url r) (snd st)) \<and>
       3 < length (title r) \<and>
       startsWith (url r) (ustr ''http'') \<and> \<not> url_rejected (snd st) (url r) \<and>
       url r \<notin> snd st \<and>
       10 < length (snippet r))"
  proof (rule disjE [OF earlier_step_cases [of b st]])
    assume "earlier_step b st = st"
    then show ?thesis by simp
  next
    assume "\<exists>r. earlier_step b st = (fst st @ [r], insert (url r) (snd st)) \<and>
        5 < length (title r) \<and> \<not> earlier_url_rejected (snd st) (url r) \<and>
        10 < length (snippet r)"
    then obtain r where r: "earlier_step b st = (fst st @ [r], insert (url r) (snd st))"
      "5 < length (title r)" "\<not> earlier_url_rejected (snd st) (url r)" "10 < length (snippet r)"
      by blast
    from r(3) have "startsWith (url r) (ustr ''http'')" "url r \<notin> snd st" "\<not> url_rejected (snd st) (url r)"
      using earlier_url_rejected_fresh earlier_validation_implies by blast+
    with r show ?thesis by auto
  qed
  ultimately show ?thesis by blast
qed

theorem acceptance_gate_witness:
  "earlier_step (sample_ancestors, tracked_block) ([], {}) \<noteq> ([], {}) \<and>
   (\<exists>r. earlier_step (sample_ancestors, tracked_block) ([], {}) = ([r], {url r}) \<and>
       3 < length (title r) \<and> startsWith (url r) (ustr ''http'') \<and> 10 < length (snippet r)) \<and>
   block_step (sample_ancestors, rust_block) ([], {}) \<noteq> ([], {}) \<and>
   (\<exists>link t. link_and_title (sample_ancestors, rust_block) = Some (link, t) \<and>
       3 < length t \<and>
       startsWith (unwrap_url (ustr link)) (ustr ''http'') \<and>
       10 < length (extract_snippet (sample_ancestors, rust_block)) \<and>
       block_step (sample_ancestors, rust_block) ([], {}) =
         ([\<lparr>title = t, url = unwrap_url (ustr link), snippet = extract_snippet (sample_ancestors, rust_block),
                     source = ''Bright Data SERP (Cheerio)''\<rparr>], {unwrap_url (ustr link)}))"
proof -
  have h: "block_step (sample_ancestors, rust_block) ([], {}) \<noteq> ([], {})"
    by code_simp
  have e: "earlier_step (sample_ancestors, tracked_block) ([], {}) \<noteq> ([], {})"
    by code_simp
  from acceptance_gate [of "(sample_ancestors, rust_block)" "([], {})"] h
  have first: "\<exists>link t. link_and_title (sample_ancestors, rust_block) = Some (link, t) \<and>
       3 < length t \<and>
       startsWith (unwrap_url (ustr link)) (ustr ''http'') \<and>
       10 < length (extract_snippet (sample_ancestors, rust_block)) \<and>
       block_step (sample_ancestors, rust_block) ([], {}) =
         ([\<lparr>title = t, url = unwrap_url (ustr link), snippet = extract_snippet (sample_ancestors, rust_block),
                     source = ''Bright Data SERP (Cheerio)''\<rparr>], {unwrap_url (ustr link)})"
    by auto
  from acceptance_gate [of "(sample_ancestors, tracked_block)" "([], {})"] e
  have "\<exists>r. earlier_step (sample_ancestors, tracked_block) ([], {}) = ([r], {url r}) \<and>
       3 < length (title r) \<and> startsWith (url r) (ustr ''http'') \<and> 10 < length (snippet r)"
    by auto
  with first h e show ?thesis by blast
qed

text \<open>
  C7. For every request, on either endpoint, whose upstream call returns a status outside
  200..299, the answer is status 502 with the upstream text cut to its first 200
  characters, and the parser is not called: the console holds the lines of the handler
  only, and not the line that \<^verbatim>\<open>parseGoogleHTMLWithCheerio\<close> writes first whenever it
  runs (lemma \<open>parse_world\<close>).
\<close>

theorem upstream_failure_answers_502:
  "(sent (snd (post_brightdata load req_body w)) = sent w @ [req] \<and>
    upstream w req = Inr r \<and> \<not> ok r \<longrightarrow>
      fst (post_brightdata load req_body w) =
        \<lparr>http_status = 502,
         json = Upstream_failure ''Bright Data API error'' (status r) (statusText r)
                  (take 200 (response_text r))\<rparr> \<and>
      length (take 200 (response_text r)) \<le> 200 \<and>
      console (snd (post_brightdata load req_body w)) =
        console w @ [Log ''PROXY_DEBUG: Path /api/brightdata.'',
                     Error ''PROXY_ERROR: Bright Data API call failed.''] \<and>
      Log ''PROXY_PARSE_RAW_HTML_START:'' \<notin>
        set (drop (length (console w)) (console (snd (post_brightdata load req_body w))))) \<and>
   (sent (snd (get_brightdataget load params w)) = sent w @ [req'] \<and>
    upstream w req' = Inr r' \<and> \<not> ok r' \<longrightarrow>
      fst (get_brightdataget load params w) =
        Inr \<lparr>http_status = 502,
             json = Upstream_failure ''Bright Data API error (via GET->POST)'' (status r')
                      (statusText r') (take 200 (response_text r'))\<rparr> \<and>
      length (take 200 (response_text r')) \<le> 200 \<and>
      console (snd (get_brightdataget load params w)) =
        console w @ [Log ''GET_ROUTE_ENTRY: Path /api/brightdataget.'',
                     Log ''PROXY_DEBUG_GET: Path /api/brightdataget.'',
                     Log ''PROXY_INTERNAL_POST_TO_BRIGHTDATA_GET_ROUTE: Request to BrightData:'',
                     Error ''PROXY_ERROR_GET: Bright Data API call failed.''] \<and>
      Log ''PROXY_PARSE_RAW_HTML_START:'' \<notin>
        set (drop (length (console w)) (console (snd (get_brightdataget load params w)))))"
proof -
  have post: "fst (post_brightdata load req_body w) =
        \<lparr>http_status = 502,
         json = Upstream_failure ''Bright Data API error'' (status r) (statusText r)
                  (take 200 (response_text r))\<rparr> \<and>
      console (snd (post_brightdata load req_body w)) =
        console w @ [Log ''PROXY_DEBUG: Path /api/brightdata.'',
                     Error ''PROXY_ERROR: Bright Data API call failed.'']"
    if a: "sent (snd (post_brightdata load req_body w)) = sent w @ [req]"
      "upstream w req = Inr r" "\<not> ok r"
  proof -
    from post_brightdata_run [of load req_body w] a(1)
    obtain q n h g where
      s: "sent (snd (post_brightdata load req_body w)) =
            sent w @ [post_request (BRIGHT_DATA_CONFIG w) q n h g]"
      and run: "post_brightdata load req_body w = post_after_send load q n h g w"
      by auto
    from s a(1) have "post_request (BRIGHT_DATA_CONFIG w) q n h g = req" by simp
    with a(2,3) show ?thesis
      unfolding run
      by (simp add: post_after_send_def get_after_send_def Let_def console_write_def)
  qed
  have get: "fst (get_brightdataget load params w) =
        Inr \<lparr>http_status = 502,
             json = Upstream_failure ''Bright Data API error (via GET->POST)'' (status r')
                      (statusText r') (take 200 (response_text r'))\<rparr> \<and>
      console (snd (get_brightdataget load params w)) =
        console w @ [Log ''GET_ROUTE_ENTRY: Path /api/brightdataget.'',
                     Log ''PROXY_DEBUG_GET: Path /api/brightdataget.'',
                     Log ''PROXY_INTERNAL_POST_TO_BRIGHTDATA_GET_ROUTE: Request to BrightData:'',
                     Error ''PROXY_ERROR_GET: Bright Data API call failed.'']"
    if a: "sent (snd (get_brightdataget load params w)) = sent w @ [req']"
      "upstream w req' = Inr r'" "\<not> ok r'"
  proof -
    from get_brightdataget_run [of load params w] a(1)
    obtain q n h g where
      s: "sent (snd (get_brightdataget load params w)) =
            sent w @ [get_request (BRIGHT_DATA_CONFIG w) q n h g]"
      and run: "get_brightdataget load params w = get_after_send load q n h g w"
      by auto
    from s a(1) have "get_request (BRIGHT_DATA_CONFIG w) q n h g = req'" by simp
    with a(2,3) show ?thesis
      unfolding run
      by (simp add: post_after_send_def get_after_send_def Let_def console_write_def)
  qed
  from post get show ?thesis by simp
qed

theorem upstream_failure_answers_502_witness:
  "sent (snd (post_brightdata sample_load rust_request (sample_world unavailable))) =
     sent (sample_world unavailable) @
       [post_request sample_config ''rust programming'' ''10'' ''en'' ''us''] \<and>
   upstream (sample_world unavailable)
     (post_request sample_config ''rust programming'' ''10'' ''en'' ''us'') = Inr unavailable \<and>
   \<not> ok unavailable \<and>
   fst (post_brightdata sample_load rust_request (sample_world unavailable)) =
     \<lparr>http_status = 502,
      json = Upstream_failure ''Bright Data API error'' 503 ''Service Unavailable''
               ''upstream busy''\<rparr> \<and>
   sent (snd (get_brightdataget sample_load rust_request (sample_world unavailable))) =
     sent (sample_world unavailable) @
       [get_request sample_config ''rust programming'' ''10'' ''en'' ''us''] \<and>
   fst (get_brightdataget sample_load rust_request (sample_world unavailable)) =
     Inr \<lparr>http_status = 502,
          json = Upstream_failure ''Bright Data API error (via GET->POST)'' 503
                   ''Service Unavailable'' ''upstream busy''\<rparr>"
proof -
  have up: "upstream (sample_world unavailable) req = Inr unavailable" for req
    by (simp add: sample_world_def)
  have nok: "\<not> ok unavailable"
    by (simp add: ok_def unavailable_def)
  have fields: "status unavailable = 503" "statusText unavailable = ''Service Unavailable''"
    "take 200 (response_text unavailable) = ''upstream busy''"
    by (simp_all add: unavailable_def)
  from upstream_failure_answers_502
    [where load = sample_load and req_body = rust_request and w = "sample_world unavailable"
       and req = "post_request sample_config ''rust programming'' ''10'' ''en'' ''us''"
       and r = unavailable and params = rust_request
       and req' = "get_request sample_config ''rust programming'' ''10'' ''en'' ''us''"
       and r' = unavailable]
    sample_post_sent [of unavailable] sample_get_sent [of unavailable] up nok
  show ?thesis by (simp add: fields)
qed

text \<open>
  C8. For every request, on either endpoint, whose upstream call succeeds and returns the
  empty markup string: the parser reports the load failure (it warns that the markup is
  missing and returns the empty list), the answer still carries exactly one placeholder
  result, whose title and URL are built from the query, and its status is 200.
\<close>

theorem empty_markup_answers_placeholder:
  "(sent (snd (post_brightdata load req_body w)) = sent w @ [req] \<and>
    upstream w req = Inr r \<and> ok r \<and> response_text r = [] \<longrightarrow>
      (\<exists>q. get_prop req_body ''query'' = JStr q \<and>
         fst (parseGoogleHTMLWithCheerio load (response_text r) q w) = [] \<and>
         fst (post_brightdata load req_body w) =
           \<lparr>http_status = 200,
            json = Search_results q
              [\<lparr>title = ''No results for \"'' @ q @ ''\"'',
                url = ustr (''https://www.google.com/search?q='' @ encodeURIComponent q),
                snippet = ''No search results were found. Try using different keywords or check your search terms.'',
                source = ''Bright Data SERP''\<rparr>]
              1 ''Bright Data SERP'' (clock w)\<rparr> \<and>
         console (snd (post_brightdata load req_body w)) =
           console w @ [Log ''PROXY_DEBUG: Path /api/brightdata.'',
                        Log ''PROXY_PARSE_RAW_HTML_START:'',
                        Warn ''PROXY_PARSE_WARN: HTML content is missing or not a string.''])) \<and>
   (sent (snd (get_brightdataget load params w)) = sent w @ [req'] \<and>
    upstream w req' = Inr r' \<and> ok r' \<and> response_text r' = [] \<longrightarrow>
      (\<exists>q. get_prop params ''query'' = JStr q \<and>
         fst (parseGoogleHTMLWithCheerio load (response_text r') q w) = [] \<and>
         fst (get_brightdataget load params w) =
           Inr \<lparr>http_status = 200,
            json = Search_results q
              [\<lparr>title = ''No results for '' @ [CHR 0x5C, CHR 0x22] @ q @ [CHR 0x5C, CHR 0x22],
                url = ustr (''https://www.google.com/search?q='' @ encodeURIComponent q),
                snippet = ''No search results were found. Try using different keywords.'',
                source = ''Bright Data SERP (via GET->POST Proxy)''\<rparr>]
              1 ''Bright Data SERP (via GET->POST Proxy)'' (clock w)\<rparr> \<and>
         console (snd (get_brightdataget load params w)) =
           console w @ [Log ''GET_ROUTE_ENTRY: Path /api/brightdataget.'',
                        Log ''PROXY_DEBUG_GET: Path /api/brightdataget.'',
                        Log ''PROXY_INTERNAL_POST_TO_BRIGHTDATA_GET_ROUTE: Request to BrightData:'',
                        Log ''PROXY_PARSE_RAW_HTML_START:'',
                        Warn ''PROXY_PARSE_WARN: HTML content is missing or not a string.'']))"
proof -
  have post: "\<exists>q. get_prop req_body ''query'' = JStr q \<and>
         fst (parseGoogleHTMLWithCheerio load (response_text r) q w) = [] \<and>
         fst (post_brightdata load req_body w) =
           \<lparr>http_status = 200,
            json = Search_results q
              [\<lparr>title = ''No results for \"'' @ q @ ''\"'',
                url = ustr (''https://www.google.com/search?q='' @ encodeURIComponent q),
                snippet = ''No search results were found. Try using different keywords or check your search terms.'',
                source = ''Bright Data SERP''\<rparr>]
              1 ''Bright Data SERP'' (clock w)\<rparr> \<and>
         console (snd (post_brightdata load req_body w)) =
           console w @ [Log ''PROXY_DEBUG: Path /api/brightdata.'',
                        Log ''PROXY_PARSE_RAW_HTML_START:'',
                        Warn ''PROXY_PARSE_WARN: HTML content is missing or not a string.'']"
    if a: "sent (snd (post_brightdata load req_body w)) = sent w @ [req]"
      "upstream w req = Inr r" "ok r" "response_text r = []"
  proof -
    from post_brightdata_run [of load req_body w] a(1)
    obtain q n h g where qp: "get_prop req_body ''query'' = JStr q" and
      s: "sent (snd (post_brightdata load req_body w)) =
            sent w @ [post_request (BRIGHT_DATA_CONFIG w) q n h g]"
      and run: "post_brightdata load req_body w = post_after_send load q n h g w"
      by auto
    from s a(1) have "post_request (BRIGHT_DATA_CONFIG w) q n h g = req" by simp
    with a(2,3,4) qp show ?thesis
      unfolding run
      by (simp add: post_after_send_def Let_def respond_results_eq parse_empty_markup
          post_placeholder_def google_search_url_def)
  qed
  have get: "\<exists>q. get_prop params ''query'' = JStr q \<and>
         fst (parseGoogleHTMLWithCheerio load (response_text r') q w) = [] \<and>
         fst (get_brightdataget load params w) =
           Inr \<lparr>http_status = 200,
            json = Search_results q
              [\<lparr>title = ''No results for '' @ [CHR 0x5C, CHR 0x22] @ q @ [CHR 0x5C, CHR 0x22],
                url = ustr (''https://www.google.com/search?q='' @ encodeURIComponent q),
                snippet = ''No search results were found. Try using different keywords.'',
                source = ''Bright Data SERP (via GET->POST Proxy)''\<rparr>]
              1 ''Bright Data SERP (via GET->POST Proxy)'' (clock w)\<rparr> \<and>
         console (snd (get_brightdataget load params w)) =
           console w @ [Log ''GET_ROUTE_ENTRY: Path /api/brightdataget.'',
                        Log ''PROXY_DEBUG_GET: Path /api/brightdataget.'',
                        Log ''PROXY_INTERNAL_POST_TO_BRIGHTDATA_GET_ROUTE: Request to BrightData:'',
                        Log ''PROXY_PARSE_RAW_HTML_START:'',
                        Warn ''PROXY_PARSE_WARN: HTML content is missing or not a string.'']"
    if a: "sent (snd (get_brightdataget load params w)) = sent w @ [req']"
      "upstream w req' = Inr r'" "ok r'" "response_text r' = []"
  proof -
    from get_brightdataget_run [of load params w] a(1)
    obtain q n h g where qp: "get_prop params ''query'' = JStr q" and
      s: "sent (snd (get_brightdataget load params w)) =
            sent w @ [get_request (BRIGHT_DATA_CONFIG w) q n h g]"
      and run: "get_brightdataget load params w = get_after_send load q n h g w"
      by auto
    from s a(1) have "get_request (BRIGHT_DATA_CONFIG w) q n h g = req'" by simp
    with a(2,3,4) qp show ?thesis
      unfolding run
      by (simp add: get_after_send_def Let_def respond_results_eq parse_empty_markup
          get_placeholder_def google_search_url_def)
  qed
  from post get show ?thesis by blast
qed

theorem empty_markup_answers_placeholder_witness:
  "sent (snd (post_brightdata sample_load rust_request (sample_world empty_page))) =
     sent (sample_world empty_page) @
       [post_request sample_config ''rust programming'' ''10'' ''en'' ''us''] \<and>
   upstream (sample_world empty_page)
     (post_request sample_config ''rust programming'' ''10'' ''en'' ''us'') = Inr empty_page \<and>
   ok empty_page \<and> response_text empty_page = [] \<and>
   fst (post_brightdata sample_load rust_request (sample_world empty_page)) =
     \<lparr>http_status = 200,
      json = Search_results ''rust programming''
        [\<lparr>title = ''No results for \"rust programming\"'',
          url = ustr ''https://www.google.com/search?q=rust%20programming'',
          snippet = ''No search results were found. Try using different keywords or check your search terms.'',
          source = ''Bright Data SERP''\<rparr>]
        1 ''Bright Data SERP'' ''2025-01-01T00:00:00.000Z''\<rparr>"
proof -
  have up: "upstream (sample_world empty_page) req = Inr empty_page" for req
    by (simp add: sample_world_def)
  have page: "ok empty_page" "response_text empty_page = []"
    by (simp_all add: ok_def empty_page_def)
  have q: "get_prop rust_request ''query'' = JStr ''rust programming''"
    by (simp add: rust_request_def)
  have enc: "encodeURIComponent ''rust programming'' = ''rust%20programming''"
    by code_simp
  have clk: "clock (sample_world empty_page) = ''2025-01-01T00:00:00.000Z''"
    by (simp add: sample_world_def)
  from empty_markup_answers_placeholder
    [where load = sample_load and req_body = rust_request and w = "sample_world empty_page"
       and req = "post_request sample_config ''rust programming'' ''10'' ''en'' ''us''"
       and r = empty_page]
    sample_post_sent [of empty_page] up page
  show ?thesis by (auto simp: q enc clk)
qed

text \<open>
  C9. \<^verbatim>\<open>parseGoogleHTMLWithCheerio\<close> is deterministic: the list it returns is the same
  in any two states of the process (configuration, clock, upstream service, console,
  requests sent), so it depends on the markup and the query only; and the function
  changes nothing of the process but the console it writes to. The markup parser of the
  DOM library is taken to be a function of the markup.
\<close>

theorem parse_result_independent_of_world:
  "fst (parseGoogleHTMLWithCheerio load html query w1) =
   fst (parseGoogleHTMLWithCheerio load html query w2) \<and>
   (\<exists>ls. snd (parseGoogleHTMLWithCheerio load html query w1) = w1\<lparr>console := console w1 @ ls\<rparr>)"
  using parse_world [of load html query w1]
  by (auto simp: parse_results_cases)

text \<open>
  C10. Every result in the list that \<^verbatim>\<open>parseGoogleHTMLWithCheerio\<close> returns, an extracted
  result or either placeholder, has a URL that begins with \<^verbatim>\<open>http\<close>.
\<close>

theorem parse_urls_start_with_http:
  "\<forall>r \<in> set (fst (parseGoogleHTMLWithCheerio load html query w)). startsWith (url r) (ustr ''http'')"
  using blocks_inv
  by (auto simp: parse_results_cases parse_inv_def list_all_iff load_error_result_def
      fallbackResult_def google_search_url_http split: sum.splits)

theorem parse_urls_start_with_http_witness:
  "map url (fst (parseGoogleHTMLWithCheerio sample_load ''<html>'' ''rust programming''
      (sample_world empty_page))) =
     [ustr ''https://www.rust-lang.org/'', ustr ''https://en.wikipedia.org/wiki/Rust_(programming_language)''] \<and>
   list_all (\<lambda>r. startsWith (url r) (ustr ''http''))
     (fst (parseGoogleHTMLWithCheerio sample_load ''<html>'' ''rust programming''
        (sample_world empty_page)))"
  using parse_urls_start_with_http
    [of sample_load "''<html>''" "''rust programming''" "sample_world empty_page"]
  by (simp add: sample_results list_all_iff)

end
